theory Spec2Isabelle
  imports Main
begin

section \<open>The ICAP transaction controller (api/icap-request.go)\<close>

text \<open>
  A shallow embedding of the request controller of the ICAP server: the struct
  \<open>ICAPRequest\<close> and its methods \<open>RequestInitialization\<close>, \<open>RequestProcessing\<close> and
  their helpers. The collaborators of the controller that are not part of the file are
  made explicit: the configuration reader, the adaptation backend and the response
  writer. Go run-time panics are values.
\<close>

subsection \<open>Go library functions used by the controller\<close>

text \<open>
  \<open>http.Header\<close> is \<open>map[string][]string\<close>. \<open>Set\<close> and \<open>Get\<close> address the entry under the
  canonical form of the key (\<open>textproto.CanonicalMIMEHeaderKey\<close>): the first letter and
  every letter after a hyphen in upper case, all others in lower case; a key holding a
  byte that is not a header token byte is left as it is.
\<close>

type_synonym header = "string \<rightharpoonup> string list"

definition isLower :: "char \<Rightarrow> bool" where
  "isLower c = (97 \<le> (of_char c :: nat) \<and> (of_char c :: nat) \<le> 122)"

definition isUpper :: "char \<Rightarrow> bool" where
  "isUpper c = (65 \<le> (of_char c :: nat) \<and> (of_char c :: nat) \<le> 90)"

definition isDigit :: "char \<Rightarrow> bool" where
  "isDigit c = (48 \<le> (of_char c :: nat) \<and> (of_char c :: nat) \<le> 57)"

definition validHeaderFieldByte :: "char \<Rightarrow> bool" where
  "validHeaderFieldByte c =
     (isLower c \<or> isUpper c \<or> isDigit c \<or>
      List.member [33, 35, 36, 37, 38, 39, 42, 43, 45, 46, 94, 95, 96, 124, 126] (of_char c :: nat))"

fun canonicalLoop :: "bool \<Rightarrow> string \<Rightarrow> string" where
  "canonicalLoop upper [] = []"
| "canonicalLoop upper (c # cs) =
     (let c' = (if upper \<and> isLower c then char_of ((of_char c :: nat) - 32)
                else if \<not> upper \<and> isUpper c then char_of ((of_char c :: nat) + 32)
                else c)
      in c' # canonicalLoop (c' = CHR ''-'') cs)"

definition CanonicalMIMEHeaderKey :: "string \<Rightarrow> string" where
  "CanonicalMIMEHeaderKey s = (if list_all validHeaderFieldByte s then canonicalLoop True s else s)"

definition Header_Set :: "header \<Rightarrow> string \<Rightarrow> string \<Rightarrow> header" where
  "Header_Set hdr k v = hdr(CanonicalMIMEHeaderKey k \<mapsto> [v])"

definition Header_Get :: "header \<Rightarrow> string \<Rightarrow> string" where
  "Header_Get hdr k =
     (case hdr (CanonicalMIMEHeaderKey k) of
        None \<Rightarrow> []
      | Some [] \<Rightarrow> []
      | Some (v # _) \<Rightarrow> v)"

text \<open>\<open>strconv.Itoa\<close>: the decimal digits of an integer, with a minus sign when negative.\<close>

fun digits :: "nat \<Rightarrow> string" where
  "digits n = (if n < 10 then [char_of (48 + n)] else digits (n div 10) @ [char_of (48 + n mod 10)])"

definition Itoa :: "int \<Rightarrow> string" where
  "Itoa n = (if n < 0 then CHR ''-'' # digits (nat (- n)) else digits (nat n))"

text \<open>
  \<open>strconv.Atoi\<close> on a 64-bit platform returns a value and an error. The text is an
  optional sign followed by at least one decimal digit; anything else is a syntax error
  with value 0, and a number outside the \<open>int\<close> range is a range error with the nearest
  bound as value. The second component tells whether an error is returned.
\<close>

fun digitsValue :: "nat \<Rightarrow> string \<Rightarrow> nat" where
  "digitsValue acc [] = acc"
| "digitsValue acc (c # cs) = digitsValue (10 * acc + ((of_char c :: nat) - 48)) cs"

definition parseDecimal :: "string \<Rightarrow> int option" where
  "parseDecimal s =
     (let (neg, ds) = (case s of
                         c # cs \<Rightarrow> if c = CHR ''-'' then (True, cs)
                                   else if c = CHR ''+'' then (False, cs) else (False, s)
                       | [] \<Rightarrow> (False, s))
      in if ds = [] \<or> \<not> list_all isDigit ds then None
         else Some (if neg then - int (digitsValue 0 ds) else int (digitsValue 0 ds)))"

definition Atoi :: "string \<Rightarrow> int \<times> bool" where
  "Atoi s =
     (case parseDecimal s of
        None \<Rightarrow> (0, True)
      | Some n \<Rightarrow> if n > 9223372036854775807 then (9223372036854775807, True)
                  else if n < - 9223372036854775808 then (- 9223372036854775808, True)
                  else (n, False))"

subsection \<open>Constants of the package utils\<close>

text \<open>
  Modelled from the spec: the package \<open>utils\<close> is not among the sources. The controller
  uses its status codes as integers (\<open>strconv.Itoa(utils.NoModificationStatusCodeStr)\<close>);
  their values are the ICAP codes 200, 204 and 500 of the specification, the method name
  is \<open>OPTIONS\<close> and \<open>utils.Any\<close> is the value \<open>*\<close> of \<open>Transfer-Preview\<close>.
\<close>

definition OkStatusCodeStr :: int where
  "OkStatusCodeStr = 200"

definition NoModificationStatusCodeStr :: int where
  "NoModificationStatusCodeStr = 204"

definition InternalServerErrStatusCodeStr :: int where
  "InternalServerErrStatusCodeStr = 500"

definition ICAPModeOptions :: string where
  "ICAPModeOptions = ''OPTIONS''"

definition Any :: string where
  "Any = ''*''"

text \<open>The status constants of \<open>net/http\<close>.\<close>

definition StatusOK :: int where
  "StatusOK = 200"

definition StatusNotFound :: int where
  "StatusNotFound = 404"

definition StatusMethodNotAllowed :: int where
  "StatusMethodNotAllowed = 405"

subsection \<open>Data\<close>

text \<open>
  The encapsulated HTTP messages. A parsed message always has a body reader
  (\<open>http.ReadRequest\<close> never leaves it nil); the body is the bytes that remain to be read.
\<close>

record http_Request =
  rq_Method :: string
  rq_Header :: header
  rq_Body :: string

record http_Response =
  rs_StatusCode :: int
  rs_Header :: header
  rs_Body :: string

text \<open>\<open>&http.Request{}\<close>: every field at its zero value.\<close>

definition emptyRequest :: http_Request where
  "emptyRequest = \<lparr>rq_Method = [], rq_Header = Map.empty, rq_Body = []\<rparr>"

text \<open>\<open>icap.Request\<close>: the fields the controller reads. Both messages are pointers.\<close>

record icap_Request =
  Method :: string
  URL_Path :: string
  Header :: header
  Request :: "http_Request option"
  Response :: "http_Response option"

text \<open>\<open>utils.HttpMsg\<close>, the input of a backend.\<close>

record HttpMsg =
  msg_Request :: "http_Request option"
  msg_Response :: "http_Response option"

text \<open>
  The \<open>interface{}\<close> argument of \<open>WriteHeader\<close> and the message a backend returns: nil, a
  request or a response.
\<close>

datatype message = ReqMessage http_Request | RespMessage http_Response

text \<open>
  The response writer is an interface; what the controller does to it is the sequence of
  its calls. \<open>WriteHeader\<close> is recorded with the header block as it is at the call, which
  is the block that goes on the wire with the status line. \<open>w.Header()\<close> returns the
  writer's own map, so the field \<open>h\<close> of the controller and \<open>i.w.Header()\<close> are the same
  map: \<open>w_Header\<close>.
\<close>

datatype call = WriteHeader int header "message option" bool | Write string

record ResponseWriter =
  w_Header :: header
  w_calls :: "call list"

record AppConfig =
  PreviewEnabled :: bool
  PreviewBytes :: string

text \<open>
  The surroundings of a transaction: the configuration reader (\<open>readValues\<close>), the
  application configuration (\<open>config.App()\<close>) and the backend: \<open>service.GetService\<close> of a
  vendor, a service name, a method name and a message, followed by \<open>Processing()\<close>, gives
  a status code, a message and the headers to add (nil or a map, in the order the
  \<open>range\<close> loop visits it).
\<close>

type_synonym serviceResult = "int \<times> message option \<times> (string \<times> string) list option"

record env =
  ReadValuesBool :: "string \<Rightarrow> bool"
  ReadValuesString :: "string \<Rightarrow> string"
  ReadValuesSlice :: "string \<Rightarrow> string list"
  App :: AppConfig
  GetService :: "string \<Rightarrow> string \<Rightarrow> string \<Rightarrow> HttpMsg \<Rightarrow> serviceResult"

text \<open>
  The struct \<open>ICAPRequest\<close>. The logger and the elapsed time are left out. \<open>dispatched\<close>
  is not a field of the struct: it records every call of a backend with its arguments.
\<close>

record ICAPRequest =
  w :: ResponseWriter
  req :: icap_Request
  Is204Allowed :: bool
  isShadowServiceEnabled :: bool
  appCfg :: "AppConfig option"
  serviceName :: string
  methodName :: string
  vendor :: string
  dispatched :: "(string \<times> string \<times> string \<times> HttpMsg) list"

datatype panic = NilDereference | IndexOutOfRange | SliceBoundsOutOfRange

text \<open>A method either returns or panics; the panic keeps the state it was raised in.\<close>

type_synonym 'a result = "(panic \<times> ICAPRequest) + 'a"

subsection \<open>The controller\<close>

definition NewICAPRequest :: "ResponseWriter \<Rightarrow> icap_Request \<Rightarrow> ICAPRequest" where
  "NewICAPRequest wr rq =
     \<lparr>w = wr, req = rq, Is204Allowed = False, isShadowServiceEnabled = False,
      appCfg = None, serviceName = [], methodName = [], vendor = [], dispatched = []\<rparr>"

definition WriteHeader_w :: "ICAPRequest \<Rightarrow> int \<Rightarrow> message option \<Rightarrow> bool \<Rightarrow> ICAPRequest" where
  "WriteHeader_w i code msg hasBody =
     i\<lparr>w := (w i)\<lparr>w_calls := w_calls (w i) @ [WriteHeader code (w_Header (w i)) msg hasBody]\<rparr>\<rparr>"

definition Write_w :: "ICAPRequest \<Rightarrow> string \<Rightarrow> ICAPRequest" where
  "Write_w i bytes = i\<lparr>w := (w i)\<lparr>w_calls := w_calls (w i) @ [Write bytes]\<rparr>\<rparr>"

definition h_Set :: "ICAPRequest \<Rightarrow> string \<Rightarrow> string \<Rightarrow> ICAPRequest" where
  "h_Set i k v = i\<lparr>w := (w i)\<lparr>w_Header := Header_Set (w_Header (w i)) k v\<rparr>\<rparr>"

fun isServiceExists_loop :: "string \<Rightarrow> string list \<Rightarrow> bool" where
  "isServiceExists_loop name [] = False"
| "isServiceExists_loop name (s # services) =
     (if name = s then True else isServiceExists_loop name services)"

definition isServiceExists :: "env \<Rightarrow> ICAPRequest \<Rightarrow> bool" where
  "isServiceExists e i = isServiceExists_loop (serviceName i) (ReadValuesSlice e ''app.services'')"

definition getMethodName :: "ICAPRequest \<Rightarrow> ICAPRequest" where
  "getMethodName i =
     (if methodName i = ''REQMOD'' then i\<lparr>methodName := ''req_mode''\<rparr>
      else if methodName i = ''RESPMOD'' then i\<lparr>methodName := ''resp_mode''\<rparr>
      else i)"

definition isMethodAllowed :: "env \<Rightarrow> ICAPRequest \<Rightarrow> bool" where
  "isMethodAllowed e i =
     (if methodName i \<noteq> ''OPTIONS''
      then (if \<not> ReadValuesBool e (serviceName i @ ''.'' @ methodName i) then False else True)
      else True)"

definition getVendorName :: "env \<Rightarrow> ICAPRequest \<Rightarrow> string" where
  "getVendorName e i = ReadValuesString e (serviceName i @ ''.vendor'')"

definition addingISTAGServiceHeaders :: "env \<Rightarrow> ICAPRequest \<Rightarrow> ICAPRequest" where
  "addingISTAGServiceHeaders e i =
     h_Set (h_Set i ''ISTag'' (ReadValuesString e (serviceName i @ ''.service_tag'')))
       ''Service'' (ReadValuesString e (serviceName i @ ''.service_caption''))"

definition is204Allowed :: "ICAPRequest \<Rightarrow> bool" where
  "is204Allowed i =
     (if Header (req i) ''Allow'' \<noteq> None \<and>
         Header_Get (Header (req i)) ''Allow'' = Itoa NoModificationStatusCodeStr
      then True else False)"

text \<open>Indexing a slice panics outside its bounds.\<close>

definition index :: "ICAPRequest \<Rightarrow> 'a list \<Rightarrow> nat \<Rightarrow> 'a result" where
  "index i xs n = (if n < length xs then Inr (xs ! n) else Inl (IndexOutOfRange, i))"

definition getEnabledMethods :: "env \<Rightarrow> ICAPRequest \<Rightarrow> string result" where
  "getEnabledMethods e i =
     (let allMethods = [];
          allMethods = (if ReadValuesBool e (serviceName i @ ''.resp_mode'')
                        then allMethods @ [''RESPMOD''] else allMethods);
          allMethods = (if ReadValuesBool e (serviceName i @ ''.req_mode'')
                        then allMethods @ [''REQMOD''] else allMethods)
      in if length allMethods = 1 then index i allMethods 0
         else (case index i allMethods 0 of
                 Inl p \<Rightarrow> Inl p
               | Inr m0 \<Rightarrow> (case index i allMethods 1 of
                             Inl p \<Rightarrow> Inl p
                           | Inr m1 \<Rightarrow> Inr (m0 @ '', '' @ m1))))"

definition optionsMode :: "env \<Rightarrow> ICAPRequest \<Rightarrow> ICAPRequest result" where
  "optionsMode e i =
     (case getEnabledMethods e i of
        Inl p \<Rightarrow> Inl p
      | Inr methods \<Rightarrow>
          (let i = h_Set i ''Methods'' methods;
               i = h_Set i ''Allow'' ''204''
           in case appCfg i of
                None \<Rightarrow> Inl (NilDereference, i)
              | Some cfg \<Rightarrow>
                  (let i = (if PreviewEnabled cfg = True
                            then (if fst (Atoi (PreviewBytes cfg)) \<ge> 0
                                  then h_Set i ''Preview'' (PreviewBytes cfg) else i)
                            else i);
                       i = h_Set i ''Transfer-Preview'' Any
                   in Inr (WriteHeader_w i StatusOK None False))))"

text \<open>
  \<open>shadowService\<close>. \<open>ioutil.ReadAll\<close> takes what remains of the body, which is written
  and then put back as a fresh reader over the same bytes. With no encapsulated message
  of the method's kind, \<open>WriteHeader\<close> is called with a nil pointer (recorded as no
  message) and reading the body of the nil message panics.
\<close>

definition shadowService :: "ICAPRequest \<Rightarrow> ICAPRequest result" where
  "shadowService i =
     (if Is204Allowed i then Inr (WriteHeader_w i NoModificationStatusCodeStr None False)
      else if Method (req i) = ''REQMOD'' then
        (case Request (req i) of
           None \<Rightarrow> Inl (NilDereference, WriteHeader_w i OkStatusCodeStr None True)
         | Some r \<Rightarrow>
             (let i = WriteHeader_w i OkStatusCodeStr (Some (ReqMessage r)) True;
                  tempBody = rq_Body r;
                  i = Write_w i tempBody
              in Inr (i\<lparr>req := (req i)\<lparr>Request := Some (r\<lparr>rq_Body := tempBody\<rparr>)\<rparr>\<rparr>)))
      else if Method (req i) = ''RESPMOD'' then
        (case Response (req i) of
           None \<Rightarrow> Inl (NilDereference, WriteHeader_w i OkStatusCodeStr None True)
         | Some r \<Rightarrow>
             (let i = WriteHeader_w i OkStatusCodeStr (Some (RespMessage r)) True;
                  tempBody = rs_Body r;
                  i = Write_w i tempBody
              in Inr (i\<lparr>req := (req i)\<lparr>Response := Some (r\<lparr>rs_Body := tempBody\<rparr>)\<rparr>\<rparr>)))
      else Inr i)"

text \<open>The loop over the headers of the backend: \<open>i.w.Header().Set(key, value)\<close> for each.\<close>

fun setServiceHeaders :: "header \<Rightarrow> (string \<times> string) list \<Rightarrow> header" where
  "setServiceHeaders hdr [] = hdr"
| "setServiceHeaders hdr ((key, val) # rest) = setServiceHeaders (Header_Set hdr key val) rest"

text \<open>
  The part of \<open>RequestProcessing\<close> from the substitution of the empty request on: the
  call of the backend, its headers, and the reply chosen by its status code. The switch
  has no default: any other code writes nothing.
\<close>

definition dispatch :: "env \<Rightarrow> ICAPRequest \<Rightarrow> ICAPRequest" where
  "dispatch e i =
     (let i = (if Request (req i) = None then i\<lparr>req := (req i)\<lparr>Request := Some emptyRequest\<rparr>\<rparr> else i);
          httpMsgIn = \<lparr>msg_Request = Request (req i), msg_Response = Response (req i)\<rparr>;
          (IcapStatusCode, httpMsg, serviceHeaders) =
             GetService e (vendor i) (serviceName i) (methodName i) httpMsgIn;
          i = i\<lparr>dispatched := dispatched i @ [(vendor i, serviceName i, methodName i, httpMsgIn)]\<rparr>;
          i = (case serviceHeaders of
                 None \<Rightarrow> i
               | Some hs \<Rightarrow> i\<lparr>w := (w i)\<lparr>w_Header := setServiceHeaders (w_Header (w i)) hs\<rparr>\<rparr>)
      in if isShadowServiceEnabled i then i
         else if IcapStatusCode = InternalServerErrStatusCodeStr
           then WriteHeader_w i IcapStatusCode None False
         else if IcapStatusCode = NoModificationStatusCodeStr
           then (if Is204Allowed i then WriteHeader_w i NoModificationStatusCodeStr None False
                 else WriteHeader_w i OkStatusCodeStr httpMsg True)
         else if IcapStatusCode = OkStatusCodeStr
           then WriteHeader_w i OkStatusCodeStr httpMsg True
         else i)"

text \<open>
  \<open>RequestProcessing\<close>. A \<open>defer\<close> statement evaluates the receiver of the deferred call
  at once: \<open>defer i.req.Request.Body.Close()\<close> reads the field \<open>Body\<close> through
  \<open>i.req.Request\<close> and panics when that pointer is nil, before the test
  \<open>i.req.Request != nil\<close> below it. Closing a body has no effect on the state.
\<close>

definition RequestProcessing :: "env \<Rightarrow> ICAPRequest \<Rightarrow> ICAPRequest result" where
  "RequestProcessing e i =
     (if methodName i = ICAPModeOptions then optionsMode e i
      else if methodName i = ''REQMOD'' then
        (case Request (req i) of
           None \<Rightarrow> Inl (NilDereference, i)
         | Some r \<Rightarrow>
             if rq_Method r = ''CONNECT''
             then Inr (WriteHeader_w i NoModificationStatusCodeStr None False)
             else Inr (dispatch e i))
      else
        (case Response (req i) of
           None \<Rightarrow> Inl (NilDereference, i)
         | Some r \<Rightarrow> Inr (dispatch e i)))"

text \<open>
  \<open>RequestInitialization\<close> returns an error (its message) or nil. The calls of the
  logger, \<open>addHeadersToLogs\<close> among them, do not touch the state and are left out, here
  and in the other methods. The slice expression
  \<open>Path[1:len(Path)]\<close> panics on an empty path. In shadow mode the statement
  \<open>go i.RequestProcessing()\<close> starts the processing after \<open>shadowService\<close> has returned;
  the calls the controller makes are those of \<open>shadowService\<close> followed by those of
  \<open>RequestProcessing\<close>, and a panic of the goroutine is a panic of the program.
\<close>

definition RequestInitialization :: "env \<Rightarrow> ICAPRequest \<Rightarrow> (ICAPRequest \<times> string option) result" where
  "RequestInitialization e i =
     (if URL_Path (req i) = [] then Inl (SliceBoundsOutOfRange, i)
      else
        (let i = i\<lparr>serviceName := tl (URL_Path (req i))\<rparr>
         in if \<not> isServiceExists e i
            then Inr (WriteHeader_w i StatusNotFound None False, Some ''service doesn't exist'')
            else
              (let i = i\<lparr>methodName := Method (req i)\<rparr>;
                   i = getMethodName i
               in if \<not> isMethodAllowed e i
                  then Inr (WriteHeader_w i StatusMethodNotAllowed None False,
                            Some ''method is not allowed'')
                  else
                    (let i = i\<lparr>methodName := Method (req i)\<rparr>;
                         i = i\<lparr>vendor := getVendorName e i\<rparr>;
                         i = addingISTAGServiceHeaders e i;
                         i = i\<lparr>Is204Allowed := is204Allowed i\<rparr>;
                         i = i\<lparr>isShadowServiceEnabled :=
                                 ReadValuesBool e (serviceName i @ ''.shadow_service'')\<rparr>;
                         i = i\<lparr>appCfg := Some (App e)\<rparr>
                     in if isShadowServiceEnabled i \<and> methodName i \<noteq> ''OPTIONS''
                        then (case shadowService i of
                                Inl p \<Rightarrow> Inl p
                              | Inr i \<Rightarrow>
                                  (case RequestProcessing e i of
                                     Inl p \<Rightarrow> Inl p
                                   | Inr i \<Rightarrow> Inr (i, Some ''shadow service'')))
                        else Inr (i, None)))))"

text \<open>
  Modelled from the spec: the function that calls the controller is not among the sources.
  By section 4.4 a transaction is the initialization and, when it reports no error, the
  processing; after an error the reply has been written and the transaction is done.
\<close>

definition transaction :: "env \<Rightarrow> ICAPRequest \<Rightarrow> ICAPRequest result" where
  "transaction e i =
     (case RequestInitialization e i of
        Inl p \<Rightarrow> Inl p
      | Inr (i, err) \<Rightarrow> (if err \<noteq> None then Inr i else RequestProcessing e i))"

subsection \<open>Observing a run\<close>

text \<open>The state a run ends in, returned or panicked, and the calls it added to the writer.\<close>

definition final :: "ICAPRequest result \<Rightarrow> ICAPRequest" where
  "final r = (case r of Inl (p, i) \<Rightarrow> i | Inr i \<Rightarrow> i)"

definition written :: "ICAPRequest \<Rightarrow> ICAPRequest \<Rightarrow> call list" where
  "written i0 i = drop (length (w_calls (w i0))) (w_calls (w i))"

fun status :: "call \<Rightarrow> int option" where
  "status (WriteHeader code hdr msg hasBody) = Some code"
| "status (Write bytes) = None"

fun carries :: "call \<Rightarrow> string \<Rightarrow> string list option" where
  "carries (WriteHeader code hdr msg hasBody) k = hdr (CanonicalMIMEHeaderKey k)"
| "carries (Write bytes) k = None"

text \<open>The message a call carries, and the body bytes it writes.\<close>

fun carried :: "call \<Rightarrow> message option" where
  "carried (WriteHeader code hdr msg hasBody) = msg"
| "carried (Write bytes) = None"

subsection \<open>A sample configuration\<close>

text \<open>
  One service \<open>svc\<close> of vendor \<open>echo\<close> with tag \<open>tag-1\<close> and caption \<open>caption\<close>; its mode
  flags, its shadow flag, the application configuration and the answer of its backend are
  parameters. \<open>incoming\<close> is a request as the server hands it to the controller, with a
  fresh writer.
\<close>

definition svcEnv :: "bool \<Rightarrow> bool \<Rightarrow> bool \<Rightarrow> AppConfig \<Rightarrow> serviceResult \<Rightarrow> env" where
  "svcEnv respMode reqMode shadow cfg res =
     \<lparr>ReadValuesBool = (\<lambda>k. if k = ''svc.resp_mode'' then respMode
                            else if k = ''svc.req_mode'' then reqMode
                            else if k = ''svc.shadow_service'' then shadow else False),
      ReadValuesString = (\<lambda>k. if k = ''svc.vendor'' then ''echo''
                              else if k = ''svc.service_tag'' then ''tag-1''
                              else if k = ''svc.service_caption'' then ''caption'' else []),
      ReadValuesSlice = (\<lambda>k. if k = ''app.services'' then [''svc''] else []),
      App = cfg,
      GetService = (\<lambda>v s m msg. res)\<rparr>"

definition noPreview :: AppConfig where
  "noPreview = \<lparr>PreviewEnabled = False, PreviewBytes = []\<rparr>"

definition incoming ::
  "string \<Rightarrow> string \<Rightarrow> header \<Rightarrow> http_Request option \<Rightarrow> http_Response option \<Rightarrow> ICAPRequest" where
  "incoming m path hdr rq rs =
     NewICAPRequest \<lparr>w_Header = Map.empty, w_calls = []\<rparr>
       \<lparr>Method = m, URL_Path = path, Header = hdr, Request = rq, Response = rs\<rparr>"

text \<open>Sample messages: a request of a given method and a response of a given status.\<close>

definition httpRequest :: "string \<Rightarrow> string \<Rightarrow> http_Request" where
  "httpRequest m body = \<lparr>rq_Method = m, rq_Header = Map.empty, rq_Body = body\<rparr>"

definition httpResponse :: "int \<Rightarrow> string \<Rightarrow> http_Response" where
  "httpResponse code body = \<lparr>rs_StatusCode = code, rs_Header = Map.empty, rs_Body = body\<rparr>"

subsection \<open>Notions used in the statements\<close>

text \<open>
  The two gates of \<open>RequestInitialization\<close> as predicates of the incoming request, and
  the state it reaches once both are passed: service name, method, vendor, identity
  headers, \<open>Is204Allowed\<close>, shadow flag and application configuration set.
\<close>

definition routed :: "env \<Rightarrow> ICAPRequest \<Rightarrow> bool" where
  "routed e i = (URL_Path (req i) \<noteq> [] \<and> isServiceExists e (i\<lparr>serviceName := tl (URL_Path (req i))\<rparr>))"

definition gated :: "env \<Rightarrow> ICAPRequest \<Rightarrow> bool" where
  "gated e i =
     isMethodAllowed e (getMethodName (i\<lparr>serviceName := tl (URL_Path (req i)), methodName := Method (req i)\<rparr>))"

definition afterGates :: "env \<Rightarrow> ICAPRequest \<Rightarrow> ICAPRequest" where
  "afterGates e i =
     (let i = i\<lparr>serviceName := tl (URL_Path (req i))\<rparr>;
          i = i\<lparr>methodName := Method (req i)\<rparr>;
          i = i\<lparr>vendor := getVendorName e i\<rparr>;
          i = addingISTAGServiceHeaders e i;
          i = i\<lparr>Is204Allowed := is204Allowed i\<rparr>;
          i = i\<lparr>isShadowServiceEnabled := ReadValuesBool e (serviceName i @ ''.shadow_service'')\<rparr>
      in i\<lparr>appCfg := Some (App e)\<rparr>)"

text \<open>The encapsulated HTTP request is present and its method is \<open>CONNECT\<close>.\<close>

definition connectRequest :: "ICAPRequest \<Rightarrow> bool" where
  "connectRequest i = (case Request (req i) of None \<Rightarrow> False | Some r \<Rightarrow> rq_Method r = ''CONNECT'')"

text \<open>From \<open>i\<close> to \<open>i'\<close> the writer only received further calls, each satisfying \<open>P\<close>.\<close>

definition emits :: "(call \<Rightarrow> bool) \<Rightarrow> ICAPRequest \<Rightarrow> ICAPRequest \<Rightarrow> bool" where
  "emits P i i' = (\<exists>cs. w_calls (w i') = w_calls (w i) @ cs \<and> list_all P cs)"

text \<open>
  The reading of the specification for \<open>Is204Allowed\<close>: the \<open>Allow\<close> header contains
  \<open>204\<close>, that is, some value of the entry has \<open>204\<close> as a substring.
\<close>

fun containsString :: "string \<Rightarrow> string \<Rightarrow> bool" where
  "containsString [] sub = (sub = [])"
| "containsString (c # cs) sub = (take (length sub) (c # cs) = sub \<or> containsString cs sub)"

definition allowContains204 :: "header \<Rightarrow> bool" where
  "allowContains204 hdr =
     (case hdr ''Allow'' of None \<Rightarrow> False | Some vs \<Rightarrow> list_ex (\<lambda>v. containsString v ''204'') vs)"

text \<open>The panic a run ended with, if any.\<close>

definition panicked :: "'a result \<Rightarrow> panic option" where
  "panicked r = (case r of Inl (p, i) \<Rightarrow> Some p | Inr x \<Rightarrow> None)"

text \<open>
  The encapsulated message the method works on is present, and the call of the backend in
  \<open>RequestProcessing\<close>: its message (with the empty request in place of a missing one) and
  its result.
\<close>

definition encapsulated :: "ICAPRequest \<Rightarrow> bool" where
  "encapsulated i =
     (if methodName i = ''REQMOD'' then Request (req i) \<noteq> None else Response (req i) \<noteq> None)"

definition backendInput :: "ICAPRequest \<Rightarrow> HttpMsg" where
  "backendInput i =
     \<lparr>msg_Request = (if Request (req i) = None then Some emptyRequest else Request (req i)),
      msg_Response = Response (req i)\<rparr>"

definition backendResult :: "env \<Rightarrow> ICAPRequest \<Rightarrow> serviceResult" where
  "backendResult e i = GetService e (vendor i) (serviceName i) (methodName i) (backendInput i)"

text \<open>
  The encapsulated message of the incoming request that its method is about, and the body
  of a message.
\<close>

fun messageBody :: "message \<Rightarrow> string" where
  "messageBody (ReqMessage r) = rq_Body r"
| "messageBody (RespMessage r) = rs_Body r"

definition original :: "ICAPRequest \<Rightarrow> message option" where
  "original i =
     (if Method (req i) = ''REQMOD'' then map_option ReqMessage (Request (req i))
      else if Method (req i) = ''RESPMOD'' then map_option RespMessage (Response (req i))
      else None)"

text \<open>
  The reply of a shadow service in the words of the specification, with no backend in it:
  204 if \<open>Allow: 204\<close> was advertised, else 200 with the original encapsulated message
  echoed, its body included.
\<close>

definition shadowReply_spec :: "bool \<Rightarrow> header \<Rightarrow> message \<Rightarrow> call list" where
  "shadowReply_spec allow204 hdr m =
     (if allow204 then [WriteHeader 204 hdr None False]
      else [WriteHeader 200 hdr (Some m) True, Write (messageBody m)])"

text \<open>
  A call is a reply after the gates: a \<open>WriteHeader\<close> with status 200, 204 or 500 whose
  header block satisfies \<open>Q\<close>, or a \<open>Write\<close>.
\<close>

definition replyWith :: "(header \<Rightarrow> bool) \<Rightarrow> call \<Rightarrow> bool" where
  "replyWith Q c =
     (case c of
        WriteHeader code hdr msg hasBody \<Rightarrow> (code = 200 \<or> code = 204 \<or> code = 500) \<and> Q hdr
      | Write bytes \<Rightarrow> True)"

text \<open>\<open>Q\<close> survives setting any key of \<open>S\<close>.\<close>

definition keeps :: "(header \<Rightarrow> bool) \<Rightarrow> string set \<Rightarrow> bool" where
  "keeps Q S = (\<forall>h k v. Q h \<longrightarrow> k \<in> S \<longrightarrow> Q (h(k \<mapsto> [v])))"

text \<open>
  The reply of the transaction is chosen from the status code of the backend: the request
  is not an \<open>OPTIONS\<close>, not a \<open>REQMOD\<close> with \<open>CONNECT\<close>, and the service is not a shadow
  service. \<open>backendHeaders\<close> are the headers the backend of the transaction returns, and
  \<open>backendSets\<close> tells whether such a reply comes after the backend returned a header of
  canonical name \<open>K\<close>.
\<close>

definition repliesFromBackend :: "env \<Rightarrow> ICAPRequest \<Rightarrow> bool" where
  "repliesFromBackend e i =
     (Method (req i) \<noteq> ''OPTIONS'' \<and> \<not> (Method (req i) = ''REQMOD'' \<and> connectRequest i)
      \<and> \<not> ReadValuesBool e (tl (URL_Path (req i)) @ ''.shadow_service''))"

definition backendHeaders :: "env \<Rightarrow> ICAPRequest \<Rightarrow> (string \<times> string) list option" where
  "backendHeaders e i = snd (snd (backendResult e (afterGates e i)))"

definition backendSets :: "env \<Rightarrow> ICAPRequest \<Rightarrow> string \<Rightarrow> bool" where
  "backendSets e i K =
     (repliesFromBackend e i \<and>
      (case backendHeaders e i of
         None \<Rightarrow> False
       | Some hs \<Rightarrow> List.member (map (\<lambda>p. CanonicalMIMEHeaderKey (fst p)) hs) K))"

section \<open>Properties\<close>

subsection \<open>Library facts\<close>

lemma Itoa_204: "Itoa NoModificationStatusCodeStr = ''204''" "Itoa 204 = ''204''"
  by code_simp+

lemma canonical_keys:
  "CanonicalMIMEHeaderKey ''Allow'' = ''Allow''"
  "CanonicalMIMEHeaderKey ''ISTag'' = ''Istag''"
  "CanonicalMIMEHeaderKey ''Service'' = ''Service''"
  "CanonicalMIMEHeaderKey ''Methods'' = ''Methods''"
  "CanonicalMIMEHeaderKey ''Preview'' = ''Preview''"
  "CanonicalMIMEHeaderKey ''Transfer-Preview'' = ''Transfer-Preview''"
  by code_simp+

lemmas sample_defs =
  svcEnv_def noPreview_def incoming_def NewICAPRequest_def httpRequest_def httpResponse_def

lemmas controller_defs =
  transaction_def RequestInitialization_def RequestProcessing_def dispatch_def shadowService_def
  optionsMode_def getEnabledMethods_def index_def isServiceExists_def isMethodAllowed_def
  getMethodName_def getVendorName_def addingISTAGServiceHeaders_def h_Set_def WriteHeader_w_def
  Write_w_def ICAPModeOptions_def Let_def

subsection \<open>The steps of a transaction\<close>

lemmas status_defs =
  OkStatusCodeStr_def NoModificationStatusCodeStr_def InternalServerErrStatusCodeStr_def
  StatusOK_def StatusNotFound_def StatusMethodNotAllowed_def

lemma getMethodName_fields [simp]:
  "serviceName (getMethodName i) = serviceName i"
  "req (getMethodName i) = req i"
  "w (getMethodName i) = w i"
  "(getMethodName i)\<lparr>methodName := m\<rparr> = i\<lparr>methodName := m\<rparr>"
  by (simp_all add: getMethodName_def)

lemma RequestInitialization_cases:
  "RequestInitialization e i =
     (if URL_Path (req i) = [] then Inl (SliceBoundsOutOfRange, i)
      else if \<not> routed e i
        then Inr (WriteHeader_w (i\<lparr>serviceName := tl (URL_Path (req i))\<rparr>) StatusNotFound None False,
                  Some ''service doesn't exist'')
      else if \<not> gated e i
        then Inr (WriteHeader_w (getMethodName (i\<lparr>serviceName := tl (URL_Path (req i)),
                     methodName := Method (req i)\<rparr>)) StatusMethodNotAllowed None False,
                  Some ''method is not allowed'')
      else if isShadowServiceEnabled (afterGates e i) \<and> Method (req i) \<noteq> ''OPTIONS''
        then (case shadowService (afterGates e i) of
                Inl p \<Rightarrow> Inl p
              | Inr i1 \<Rightarrow> (case RequestProcessing e i1 of
                             Inl p \<Rightarrow> Inl p
                           | Inr i2 \<Rightarrow> Inr (i2, Some ''shadow service'')))
      else Inr (afterGates e i, None))"
  by (simp add: RequestInitialization_def routed_def gated_def afterGates_def Let_def
        addingISTAGServiceHeaders_def h_Set_def)

lemma afterGates_fields [simp]:
  "w_calls (w (afterGates e i)) = w_calls (w i)"
  "w_Header (w (afterGates e i)) =
     Header_Set (Header_Set (w_Header (w i)) ''ISTag'' (ReadValuesString e (tl (URL_Path (req i)) @ ''.service_tag'')))
       ''Service'' (ReadValuesString e (tl (URL_Path (req i)) @ ''.service_caption''))"
  "req (afterGates e i) = req i"
  "methodName (afterGates e i) = Method (req i)"
  "serviceName (afterGates e i) = tl (URL_Path (req i))"
  "vendor (afterGates e i) = ReadValuesString e (tl (URL_Path (req i)) @ ''.vendor'')"
  "Is204Allowed (afterGates e i) = is204Allowed i"
  "isShadowServiceEnabled (afterGates e i) = ReadValuesBool e (tl (URL_Path (req i)) @ ''.shadow_service'')"
  "appCfg (afterGates e i) = Some (App e)"
  "dispatched (afterGates e i) = dispatched i"
  by (simp_all add: afterGates_def Let_def addingISTAGServiceHeaders_def h_Set_def getVendorName_def
        is204Allowed_def)

lemma transaction_cases:
  "transaction e i =
     (if URL_Path (req i) = [] then Inl (SliceBoundsOutOfRange, i)
      else if \<not> routed e i
        then Inr (WriteHeader_w (i\<lparr>serviceName := tl (URL_Path (req i))\<rparr>) StatusNotFound None False)
      else if \<not> gated e i
        then Inr (WriteHeader_w (getMethodName (i\<lparr>serviceName := tl (URL_Path (req i)),
                     methodName := Method (req i)\<rparr>)) StatusMethodNotAllowed None False)
      else if isShadowServiceEnabled (afterGates e i) \<and> Method (req i) \<noteq> ''OPTIONS''
        then (case shadowService (afterGates e i) of
                Inl p \<Rightarrow> Inl p
              | Inr i1 \<Rightarrow> RequestProcessing e i1)
      else RequestProcessing e (afterGates e i))"
  by (simp add: transaction_def RequestInitialization_cases split: sum.splits)

lemma emits_refl: "emits P i i"
  by (simp add: emits_def)

lemma emits_same: "w_calls (w i') = w_calls (w i) \<Longrightarrow> emits P i i'"
  by (simp add: emits_def)

lemma emits_trans: "emits P i i' \<Longrightarrow> emits P i' i'' \<Longrightarrow> emits P i i''"
  by (auto simp: emits_def)

lemma emits_WriteHeader:
  "P (WriteHeader code (w_Header (w i)) msg b) \<Longrightarrow> emits P i (WriteHeader_w i code msg b)"
  by (simp add: emits_def WriteHeader_w_def)

lemma emits_written: "emits P i i' \<Longrightarrow> c \<in> set (written i i') \<Longrightarrow> P c"
  by (auto simp: emits_def written_def list_all_iff)

lemma dispatch_204:
  "(Is204Allowed i \<Longrightarrow> A) \<Longrightarrow> emits (\<lambda>c. status c = Some 204 \<longrightarrow> A) i (dispatch e i)"
  by (auto simp: dispatch_def Let_def status_defs emits_WriteHeader emits_same WriteHeader_w_def emits_def
      split: prod.splits option.splits)

lemma final_simps [simp]: "final (Inr i) = i" "final (Inl (p, i)) = i"
  by (simp_all add: final_def)

lemma optionsMode_204:
  "emits (\<lambda>c. status c = Some 204 \<longrightarrow> A) i (final (optionsMode e i))"
  by (auto simp: optionsMode_def getEnabledMethods_def index_def Let_def status_defs h_Set_def
        WriteHeader_w_def emits_def split: option.splits)

lemma RequestProcessing_204:
  "(Is204Allowed i \<Longrightarrow> A) \<Longrightarrow> (methodName i = ''REQMOD'' \<Longrightarrow> connectRequest i \<Longrightarrow> A) \<Longrightarrow>
   emits (\<lambda>c. status c = Some 204 \<longrightarrow> A) i (final (RequestProcessing e i))"
  unfolding RequestProcessing_def
  by (auto simp: optionsMode_204 dispatch_204 emits_refl connectRequest_def
        emits_WriteHeader status_defs split: option.splits)

lemma shadowService_204:
  "(Is204Allowed i \<Longrightarrow> A) \<Longrightarrow> emits (\<lambda>c. status c = Some 204 \<longrightarrow> A) i (final (shadowService i))"
  by (auto simp: shadowService_def Let_def status_defs WriteHeader_w_def Write_w_def emits_def
      split: option.splits)

lemma shadowService_fields:
  assumes "shadowService i = Inr i'"
  shows "req i' = req i" and "methodName i' = methodName i" and "Is204Allowed i' = Is204Allowed i"
    and "isShadowServiceEnabled i' = isShadowServiceEnabled i" and "w_Header (w i') = w_Header (w i)"
    and "dispatched i' = dispatched i" and "serviceName i' = serviceName i" and "vendor i' = vendor i"
    and "appCfg i' = appCfg i"
  using assms
  by (auto simp: shadowService_def Let_def WriteHeader_w_def Write_w_def
      split: option.splits if_splits intro: icap_Request.equality)



subsection \<open>The enabled methods\<close>

text \<open>
  C10. \<open>getEnabledMethods\<close> indexes its list within bounds and returns a non-empty string
  exactly when at least one of the flags \<open>resp_mode\<close> and \<open>req_mode\<close> of the service is
  enabled; with both disabled it panics on \<open>allMethods[0]\<close>. The method gate does not
  exclude that case: \<open>OPTIONS\<close> is allowed whatever the flags are.
\<close>

theorem getEnabledMethods_in_bounds:
  "(\<exists>s. getEnabledMethods e i = Inr s \<and> s \<noteq> []) =
     (ReadValuesBool e (serviceName i @ ''.resp_mode'') \<or> ReadValuesBool e (serviceName i @ ''.req_mode''))
   \<and> (getEnabledMethods e i = Inl (IndexOutOfRange, i)) =
     (\<not> ReadValuesBool e (serviceName i @ ''.resp_mode'') \<and> \<not> ReadValuesBool e (serviceName i @ ''.req_mode''))
   \<and> isMethodAllowed e (i\<lparr>methodName := ''OPTIONS''\<rparr>)"
  by (simp add: getEnabledMethods_def index_def isMethodAllowed_def Let_def)

theorem getEnabledMethods_in_bounds_witness:
  "(\<exists>s. getEnabledMethods (svcEnv True False False noPreview (200, None, None))
          ((incoming ''OPTIONS'' ''/svc'' Map.empty None None)\<lparr>serviceName := ''svc''\<rparr>) = Inr s \<and> s \<noteq> [])
   \<and> getEnabledMethods (svcEnv False False False noPreview (200, None, None))
          ((incoming ''OPTIONS'' ''/svc'' Map.empty None None)\<lparr>serviceName := ''svc''\<rparr>)
        = Inl (IndexOutOfRange, (incoming ''OPTIONS'' ''/svc'' Map.empty None None)\<lparr>serviceName := ''svc''\<rparr>)"
  using getEnabledMethods_in_bounds
          [of "svcEnv True False False noPreview (200, None, None)"
              "(incoming ''OPTIONS'' ''/svc'' Map.empty None None)\<lparr>serviceName := ''svc''\<rparr>"]
        getEnabledMethods_in_bounds
          [of "svcEnv False False False noPreview (200, None, None)"
              "(incoming ''OPTIONS'' ''/svc'' Map.empty None None)\<lparr>serviceName := ''svc''\<rparr>"]
  by (simp add: svcEnv_def)

subsection \<open>When 204 is sent\<close>

text \<open>
  C1, as the code has it. Every \<open>WriteHeader\<close> with status 204 that a transaction issues,
  whether it returns or panics, is issued for a request whose first \<open>Allow\<close> value is
  \<open>204\<close> (\<open>is204Allowed\<close>) or for a \<open>REQMOD\<close> whose encapsulated request has method
  \<open>CONNECT\<close>. The controller has no notion of a preview.
\<close>

theorem only_204:
  assumes "c \<in> set (written i (final (transaction e i)))" and "status c = Some 204"
  shows "is204Allowed i \<or> (Method (req i) = ''REQMOD'' \<and> connectRequest i)"
proof -
  let ?A = "is204Allowed i \<or> (Method (req i) = ''REQMOD'' \<and> connectRequest i)"
  let ?P = "\<lambda>c. status c = Some 204 \<longrightarrow> ?A"
  have "emits ?P i (final (transaction e i))"
  proof (cases "URL_Path (req i) = [] \<or> \<not> routed e i \<or> \<not> gated e i")
    case True
    then show ?thesis
      by (auto simp: transaction_cases emits_refl status_defs WriteHeader_w_def emits_def)
  next
    case False
    let ?i1 = "afterGates e i"
    have rp: "emits ?P ?i1 (final (RequestProcessing e ?i1))"
      by (rule RequestProcessing_204) (auto simp: connectRequest_def)
    show ?thesis
    proof (cases "isShadowServiceEnabled ?i1 \<and> Method (req i) \<noteq> ''OPTIONS''")
      case plain: False
      with False have "transaction e i = RequestProcessing e ?i1"
        by (auto simp: transaction_cases)
      with rp show ?thesis by (simp add: emits_def)
    next
      case shadow: True
      have sh: "emits ?P ?i1 (final (shadowService ?i1))"
        by (rule shadowService_204) simp
      show ?thesis
      proof (cases "shadowService ?i1")
        case (Inl p)
        with False shadow have "transaction e i = Inl p"
          by (auto simp: transaction_cases)
        with sh Inl show ?thesis by (cases p) (simp add: emits_def)
      next
        case (Inr i2)
        with False shadow have t: "transaction e i = RequestProcessing e i2"
          by (auto simp: transaction_cases)
        note f = shadowService_fields[OF Inr]
        have "emits ?P i2 (final (RequestProcessing e i2))"
          by (rule RequestProcessing_204) (auto simp: f connectRequest_def)
        moreover from sh Inr have "emits ?P ?i1 i2" by simp
        ultimately have "emits ?P ?i1 (final (RequestProcessing e i2))"
          by (rule emits_trans[rotated])
        with t show ?thesis by (simp add: emits_def)
      qed
    qed
  qed
  from emits_written[OF this assms(1)] assms(2) show ?thesis by simp
qed

theorem only_204_witness:
  "WriteHeader 204 (Header_Set (Header_Set Map.empty ''ISTag'' ''tag-1'') ''Service'' ''caption'') None False
     \<in> set (written (incoming ''REQMOD'' ''/svc'' [''Allow'' \<mapsto> [''204'']] (Some (httpRequest ''GET'' ''abc'')) None)
          (final (transaction (svcEnv False True False noPreview (204, None, None))
             (incoming ''REQMOD'' ''/svc'' [''Allow'' \<mapsto> [''204'']] (Some (httpRequest ''GET'' ''abc'')) None))))
   \<and> (is204Allowed (incoming ''REQMOD'' ''/svc'' [''Allow'' \<mapsto> [''204'']] (Some (httpRequest ''GET'' ''abc'')) None)
      \<or> (Method (req (incoming ''REQMOD'' ''/svc'' [''Allow'' \<mapsto> [''204'']] (Some (httpRequest ''GET'' ''abc'')) None)) = ''REQMOD''
         \<and> connectRequest (incoming ''REQMOD'' ''/svc'' [''Allow'' \<mapsto> [''204'']] (Some (httpRequest ''GET'' ''abc'')) None)))"
proof -
  let ?i = "incoming ''REQMOD'' ''/svc'' [''Allow'' \<mapsto> [''204'']] (Some (httpRequest ''GET'' ''abc'')) None"
  let ?e = "svcEnv False True False noPreview (204, None, None)"
  let ?c = "WriteHeader 204 (Header_Set (Header_Set Map.empty ''ISTag'' ''tag-1'') ''Service'' ''caption'') None False"
  have 1: "?c \<in> set (written ?i (final (transaction ?e ?i)))"
    by (simp add: sample_defs controller_defs status_defs is204Allowed_def Header_Get_def
          canonical_keys Itoa_204 written_def)
  have 2: "status ?c = Some 204" by simp
  from only_204[OF 1 2] 1 show ?thesis by simp
qed

text \<open>
  C1 as stated fails: a \<open>REQMOD\<close> with an encapsulated \<open>CONNECT\<close> and no \<open>Allow\<close> header
  at all is answered with 204.
\<close>

theorem only_204_counterexample:
  "map status (written (incoming ''REQMOD'' ''/svc'' Map.empty (Some (httpRequest ''CONNECT'' [])) None)
      (final (transaction (svcEnv False True False noPreview (200, None, None))
         (incoming ''REQMOD'' ''/svc'' Map.empty (Some (httpRequest ''CONNECT'' [])) None)))) = [Some 204]
   \<and> Header (req (incoming ''REQMOD'' ''/svc'' Map.empty (Some (httpRequest ''CONNECT'' [])) None)) ''Allow'' = None
   \<and> \<not> is204Allowed (incoming ''REQMOD'' ''/svc'' Map.empty (Some (httpRequest ''CONNECT'' [])) None)"
  by (simp add: sample_defs controller_defs status_defs is204Allowed_def written_def)

subsection \<open>The flag \<open>Is204Allowed\<close>\<close>

lemma is204Allowed_iff: "is204Allowed i = (\<exists>vs. Header (req i) ''Allow'' = Some (''204'' # vs))"
  by (auto simp: is204Allowed_def Header_Get_def canonical_keys Itoa_204 split: option.splits list.splits)

lemma dispatch_fields [simp]:
  "Is204Allowed (dispatch e i) = Is204Allowed i"
  "methodName (dispatch e i) = methodName i"
  "isShadowServiceEnabled (dispatch e i) = isShadowServiceEnabled i"
  by (simp_all add: dispatch_def Let_def WriteHeader_w_def split: prod.splits option.splits)

lemma RequestProcessing_Is204Allowed:
  "Is204Allowed (final (RequestProcessing e i)) = Is204Allowed i"
  by (auto simp: RequestProcessing_def optionsMode_def getEnabledMethods_def index_def Let_def
        h_Set_def WriteHeader_w_def split: option.splits)

text \<open>
  C9, as the code has it. \<open>is204Allowed\<close> holds exactly when the request has an entry
  \<open>Allow\<close> whose first value is the string \<open>204\<close> itself, and that is the value of the
  flag \<open>Is204Allowed\<close> in every transaction that passes the two gates.
\<close>

theorem Is204Allowed_exact:
  "is204Allowed i = (\<exists>vs. Header (req i) ''Allow'' = Some (''204'' # vs))
   \<and> (routed e i \<longrightarrow> gated e i \<longrightarrow> Is204Allowed (final (transaction e i)) = is204Allowed i)"
proof -
  have "Is204Allowed (final (transaction e i)) = is204Allowed i" if "routed e i" "gated e i"
  proof (cases "isShadowServiceEnabled (afterGates e i) \<and> Method (req i) \<noteq> ''OPTIONS''")
    case False
    with that have "transaction e i = RequestProcessing e (afterGates e i)"
      by (auto simp: transaction_cases routed_def)
    then show ?thesis by (simp add: RequestProcessing_Is204Allowed)
  next
    case True
    show ?thesis
    proof (cases "shadowService (afterGates e i)")
      case (Inl p)
      with True that have "transaction e i = Inl p"
        by (auto simp: transaction_cases routed_def)
      moreover from Inl have "Is204Allowed (snd p) = is204Allowed i"
        by (auto simp: shadowService_def Let_def WriteHeader_w_def split: if_splits option.splits)
      ultimately show ?thesis by (cases p) simp
    next
      case (Inr i2)
      with True that have "transaction e i = RequestProcessing e i2"
        by (auto simp: transaction_cases routed_def)
      with shadowService_fields(3)[OF Inr] show ?thesis
        by (simp add: RequestProcessing_Is204Allowed)
    qed
  qed
  with is204Allowed_iff show ?thesis by blast
qed

theorem Is204Allowed_exact_witness:
  "routed (svcEnv False True False noPreview (204, None, None))
      (incoming ''REQMOD'' ''/svc'' [''Allow'' \<mapsto> [''204'']] (Some (httpRequest ''GET'' ''abc'')) None)
   \<and> gated (svcEnv False True False noPreview (204, None, None))
      (incoming ''REQMOD'' ''/svc'' [''Allow'' \<mapsto> [''204'']] (Some (httpRequest ''GET'' ''abc'')) None)
   \<and> Is204Allowed (final (transaction (svcEnv False True False noPreview (204, None, None))
      (incoming ''REQMOD'' ''/svc'' [''Allow'' \<mapsto> [''204'']] (Some (httpRequest ''GET'' ''abc'')) None)))"
proof -
  let ?i = "incoming ''REQMOD'' ''/svc'' [''Allow'' \<mapsto> [''204'']] (Some (httpRequest ''GET'' ''abc'')) None"
  let ?e = "svcEnv False True False noPreview (204, None, None)"
  have 1: "routed ?e ?i"
    by (simp add: routed_def sample_defs isServiceExists_def)
  have 2: "gated ?e ?i"
    by (simp add: gated_def sample_defs isMethodAllowed_def getMethodName_def)
  have 3: "\<exists>vs. Header (req ?i) ''Allow'' = Some (''204'' # vs)"
    by (simp add: sample_defs)
  from Is204Allowed_exact[of ?i ?e] 1 2 3 show ?thesis by simp
qed

text \<open>
  C9 as stated fails: the value \<open>204, 206\<close> contains \<open>204\<close> and lists it among other
  tokens, and the flag is false.
\<close>

theorem Is204Allowed_exact_counterexample:
  "allowContains204 (Header (req (incoming ''REQMOD'' ''/svc'' [''Allow'' \<mapsto> [''204, 206'']]
       (Some (httpRequest ''GET'' ''abc'')) None)))
   \<and> \<not> is204Allowed (incoming ''REQMOD'' ''/svc'' [''Allow'' \<mapsto> [''204, 206'']]
       (Some (httpRequest ''GET'' ''abc'')) None)
   \<and> \<not> Is204Allowed (final (transaction (svcEnv False True False noPreview (204, None, None))
       (incoming ''REQMOD'' ''/svc'' [''Allow'' \<mapsto> [''204, 206'']] (Some (httpRequest ''GET'' ''abc'')) None)))"
  by (simp add: sample_defs controller_defs status_defs is204Allowed_def Header_Get_def
        canonical_keys Itoa_204 allowContains204_def)

subsection \<open>\<open>REQMOD\<close> with \<open>CONNECT\<close>\<close>

lemma RequestProcessing_connect:
  "methodName i = ''REQMOD'' \<Longrightarrow> connectRequest i \<Longrightarrow>
   RequestProcessing e i = Inr (WriteHeader_w i NoModificationStatusCodeStr None False)"
  by (auto simp: RequestProcessing_def connectRequest_def ICAPModeOptions_def split: option.splits)

lemma shadowService_dispatched: "dispatched (final (shadowService i)) = dispatched i"
  by (auto simp: shadowService_def Let_def WriteHeader_w_def Write_w_def split: option.splits)

lemma connectRequest_cong: "req i' = req i \<Longrightarrow> connectRequest i' = connectRequest i"
  by (simp add: connectRequest_def)

text \<open>
  C5, as the code has it. For a \<open>REQMOD\<close> whose encapsulated HTTP request has method
  \<open>CONNECT\<close> no backend is called, whatever the configuration and the backend are and
  however the transaction ends; and when the request passes both gates and the service is
  not a shadow service, the transaction is the single call \<open>WriteHeader(204, nil, false)\<close>
  with the identity headers of the service.
\<close>

theorem connect_reply:
  assumes "Method (req i) = ''REQMOD''" and "connectRequest i"
  shows "dispatched (final (transaction e i)) = dispatched i
     \<and> (routed e i \<and> gated e i \<and> \<not> ReadValuesBool e (tl (URL_Path (req i)) @ ''.shadow_service'') \<longrightarrow>
          (\<exists>i'. transaction e i = Inr i'
             \<and> written i i' =
                 [WriteHeader 204
                    (Header_Set (Header_Set (w_Header (w i)) ''ISTag''
                        (ReadValuesString e (tl (URL_Path (req i)) @ ''.service_tag'')))
                      ''Service'' (ReadValuesString e (tl (URL_Path (req i)) @ ''.service_caption'')))
                    None False]))"
proof (cases "routed e i \<and> gated e i")
  case False
  then show ?thesis
    by (auto simp: transaction_cases routed_def WriteHeader_w_def getMethodName_def)
next
  case True
  then have gates: "routed e i" "gated e i" by simp_all
  let ?i1 = "afterGates e i"
  from assms have m1: "methodName ?i1 = ''REQMOD''" and c1: "connectRequest ?i1"
    by (simp_all add: connectRequest_cong[of ?i1 i])
  from assms(1) have no: "Method (req i) \<noteq> ''OPTIONS''" by simp
  show ?thesis
  proof (cases "isShadowServiceEnabled ?i1")
    case False
    with gates have "transaction e i = RequestProcessing e ?i1"
      by (auto simp: transaction_cases routed_def)
    with RequestProcessing_connect[OF m1 c1]
    have "transaction e i = Inr (WriteHeader_w ?i1 NoModificationStatusCodeStr None False)" by simp
    with gates show ?thesis
      by (simp add: WriteHeader_w_def written_def status_defs)
  next
    case sh: True
    show ?thesis
    proof (cases "shadowService ?i1")
      case (Inl p)
      with gates sh no have "transaction e i = Inl p"
        by (auto simp: transaction_cases routed_def)
      moreover from shadowService_dispatched[of ?i1] Inl have "dispatched (final (Inl p)) = dispatched i"
        by simp
      ultimately show ?thesis using sh by simp
    next
      case (Inr i2)
      with gates sh no have t: "transaction e i = RequestProcessing e i2"
        by (auto simp: transaction_cases routed_def)
      note f = shadowService_fields[OF Inr]
      from m1 c1 have "methodName i2 = ''REQMOD''" "connectRequest i2"
        by (simp_all add: f connectRequest_cong[of i2 ?i1])
      from RequestProcessing_connect[OF this] t
      have "transaction e i = Inr (WriteHeader_w i2 NoModificationStatusCodeStr None False)" by simp
      with sh show ?thesis by (simp add: WriteHeader_w_def f)
    qed
  qed
qed

theorem connect_reply_witness:
  "Method (req (incoming ''REQMOD'' ''/svc'' Map.empty (Some (httpRequest ''CONNECT'' [])) None)) = ''REQMOD''
   \<and> connectRequest (incoming ''REQMOD'' ''/svc'' Map.empty (Some (httpRequest ''CONNECT'' [])) None)
   \<and> routed (svcEnv False True False noPreview (200, None, None))
        (incoming ''REQMOD'' ''/svc'' Map.empty (Some (httpRequest ''CONNECT'' [])) None)
   \<and> gated (svcEnv False True False noPreview (200, None, None))
        (incoming ''REQMOD'' ''/svc'' Map.empty (Some (httpRequest ''CONNECT'' [])) None)
   \<and> dispatched (final (transaction (svcEnv False True False noPreview (200, None, None))
        (incoming ''REQMOD'' ''/svc'' Map.empty (Some (httpRequest ''CONNECT'' [])) None))) = []
   \<and> (\<exists>i'. transaction (svcEnv False True False noPreview (200, None, None))
          (incoming ''REQMOD'' ''/svc'' Map.empty (Some (httpRequest ''CONNECT'' [])) None) = Inr i'
        \<and> written (incoming ''REQMOD'' ''/svc'' Map.empty (Some (httpRequest ''CONNECT'' [])) None) i'
            = [WriteHeader 204 (Header_Set (Header_Set Map.empty ''ISTag'' ''tag-1'') ''Service'' ''caption'')
                 None False])"
proof -
  let ?i = "incoming ''REQMOD'' ''/svc'' Map.empty (Some (httpRequest ''CONNECT'' [])) None"
  let ?e = "svcEnv False True False noPreview (200, None, None)"
  have 1: "Method (req ?i) = ''REQMOD''" by (simp add: sample_defs)
  have 2: "connectRequest ?i" by (simp add: connectRequest_def sample_defs)
  have 3: "routed ?e ?i" by (simp add: routed_def sample_defs isServiceExists_def)
  have 4: "gated ?e ?i" by (simp add: gated_def sample_defs isMethodAllowed_def getMethodName_def)
  have 5: "\<not> ReadValuesBool ?e (tl (URL_Path (req ?i)) @ ''.shadow_service'')"
    by (simp add: sample_defs)
  have 6: "dispatched ?i = []" "w_Header (w ?i) = Map.empty"
      "ReadValuesString ?e (tl (URL_Path (req ?i)) @ ''.service_tag'') = ''tag-1''"
      "ReadValuesString ?e (tl (URL_Path (req ?i)) @ ''.service_caption'') = ''caption''"
    by (simp_all add: sample_defs)
  from connect_reply[OF 1 2, of ?e] 3 4 5
  have d: "dispatched (final (transaction ?e ?i)) = dispatched ?i"
    and "\<exists>i'. transaction ?e ?i = Inr i'
             \<and> written ?i i' =
                 [WriteHeader 204
                    (Header_Set (Header_Set (w_Header (w ?i)) ''ISTag''
                        (ReadValuesString ?e (tl (URL_Path (req ?i)) @ ''.service_tag'')))
                      ''Service'' (ReadValuesString ?e (tl (URL_Path (req ?i)) @ ''.service_caption'')))
                    None False]"
    by blast+
  then obtain i' where r: "transaction ?e ?i = Inr i'"
    and wr: "written ?i i' =
                 [WriteHeader 204
                    (Header_Set (Header_Set (w_Header (w ?i)) ''ISTag''
                        (ReadValuesString ?e (tl (URL_Path (req ?i)) @ ''.service_tag'')))
                      ''Service'' (ReadValuesString ?e (tl (URL_Path (req ?i)) @ ''.service_caption'')))
                    None False]"
    by blast
  from wr 6 have wr': "written ?i i' =
      [WriteHeader 204 (Header_Set (Header_Set Map.empty ''ISTag'' ''tag-1'') ''Service'' ''caption'') None False]"
    by simp
  from d 6 have d': "dispatched (final (transaction ?e ?i)) = []" by simp
  from 1 2 3 4 d' r wr' show ?thesis by blast
qed

text \<open>
  C5 as stated fails: the reply is 405 when \<open>req_mode\<close> is disabled and 404 for an unknown
  service, and a shadow service without \<open>Allow: 204\<close> first replies 200 with the request
  echoed.
\<close>

theorem connect_reply_counterexample:
  "map status (written (incoming ''REQMOD'' ''/svc'' Map.empty (Some (httpRequest ''CONNECT'' [])) None)
       (final (transaction (svcEnv True False False noPreview (200, None, None))
          (incoming ''REQMOD'' ''/svc'' Map.empty (Some (httpRequest ''CONNECT'' [])) None))))
     = [Some 405]
   \<and> map status (written (incoming ''REQMOD'' ''/nope'' Map.empty (Some (httpRequest ''CONNECT'' [])) None)
       (final (transaction (svcEnv True True False noPreview (200, None, None))
          (incoming ''REQMOD'' ''/nope'' Map.empty (Some (httpRequest ''CONNECT'' [])) None))))
     = [Some 404]
   \<and> take 2 (written (incoming ''REQMOD'' ''/svc'' Map.empty (Some (httpRequest ''CONNECT'' ''abc'')) None)
       (final (transaction (svcEnv False True True noPreview (200, None, None))
          (incoming ''REQMOD'' ''/svc'' Map.empty (Some (httpRequest ''CONNECT'' ''abc'')) None))))
     = shadowReply_spec False (Header_Set (Header_Set Map.empty ''ISTag'' ''tag-1'') ''Service'' ''caption'')
         (ReqMessage (httpRequest ''CONNECT'' ''abc''))"
  by (simp add: sample_defs controller_defs status_defs is204Allowed_def written_def shadowReply_spec_def)

subsection \<open>No encapsulated message\<close>

text \<open>
  With neither an encapsulated request nor an encapsulated response, \<open>RequestProcessing\<close>
  panics at its \<open>defer\<close> statement and never reaches the substitution of the empty request.
\<close>

lemma RequestProcessing_both_absent:
  "methodName i \<noteq> ''OPTIONS'' \<Longrightarrow> Request (req i) = None \<Longrightarrow> Response (req i) = None \<Longrightarrow>
   RequestProcessing e i = Inl (NilDereference, i)"
  by (simp add: RequestProcessing_def ICAPModeOptions_def)

text \<open>
  C6 fails on the code. A \<open>REQMOD\<close> and a \<open>RESPMOD\<close> to an existing service with both modes
  enabled, carrying no encapsulated message: the transaction ends in a nil dereference, no
  backend has been called and, for the \<open>REQMOD\<close>, nothing has been written.
\<close>

theorem missing_message_panics:
  "panicked (transaction (svcEnv True True False noPreview (204, None, None))
       (incoming ''REQMOD'' ''/svc'' Map.empty None None)) = Some NilDereference
   \<and> dispatched (final (transaction (svcEnv True True False noPreview (204, None, None))
       (incoming ''REQMOD'' ''/svc'' Map.empty None None))) = []
   \<and> w_calls (w (final (transaction (svcEnv True True False noPreview (204, None, None))
       (incoming ''REQMOD'' ''/svc'' Map.empty None None)))) = []
   \<and> panicked (transaction (svcEnv True True False noPreview (204, None, None))
       (incoming ''RESPMOD'' ''/svc'' Map.empty None None)) = Some NilDereference
   \<and> dispatched (final (transaction (svcEnv True True False noPreview (204, None, None))
       (incoming ''RESPMOD'' ''/svc'' Map.empty None None))) = []"
  by (simp add: sample_defs controller_defs status_defs is204Allowed_def panicked_def)

subsection \<open>The reply to the status code of the backend\<close>

lemma RequestProcessing_dispatch:
  "methodName i \<noteq> ''OPTIONS'' \<Longrightarrow> encapsulated i \<Longrightarrow> \<not> (methodName i = ''REQMOD'' \<and> connectRequest i) \<Longrightarrow>
   RequestProcessing e i = Inr (dispatch e i)"
  by (auto simp: RequestProcessing_def ICAPModeOptions_def encapsulated_def connectRequest_def
      split: option.splits if_splits)

lemma dispatch_header:
  "backendResult e i = (code, msg, hs) \<Longrightarrow>
   w_Header (w (dispatch e i)) =
     (case hs of None \<Rightarrow> w_Header (w i) | Some l \<Rightarrow> setServiceHeaders (w_Header (w i)) l)"
  by (auto simp: dispatch_def backendResult_def backendInput_def Let_def WriteHeader_w_def
      split: option.splits)

lemma dispatch_dispatched:
  "dispatched (dispatch e i) =
     dispatched i @ [(vendor i, serviceName i, methodName i, backendInput i)]"
  by (auto simp: dispatch_def backendInput_def Let_def WriteHeader_w_def
      split: option.splits prod.splits)

lemma dispatch_written:
  "backendResult e i = (code, msg, hs) \<Longrightarrow>
   written i (dispatch e i) =
     (if isShadowServiceEnabled i then []
      else if code = 500 then [WriteHeader 500 (w_Header (w (dispatch e i))) None False]
      else if code = 204 then
        (if Is204Allowed i then [WriteHeader 204 (w_Header (w (dispatch e i))) None False]
         else [WriteHeader 200 (w_Header (w (dispatch e i))) msg True])
      else if code = 200 then [WriteHeader 200 (w_Header (w (dispatch e i))) msg True]
      else [])"
  by (auto simp: dispatch_def backendResult_def backendInput_def Let_def WriteHeader_w_def
        written_def status_defs split: option.splits)

text \<open>
  C4, as the code has it. In a non-shadow \<open>REQMOD\<close> or \<open>RESPMOD\<close> whose backend returns 204,
  the controller writes 204 without a message when \<open>Is204Allowed\<close> holds, and otherwise
  writes 200 with the message the backend returned, whatever that is, and \<open>hasBody\<close> true.
  The header block is the one after the headers of the backend have been set.
\<close>

theorem backend_204:
  assumes "methodName i \<noteq> ''OPTIONS''" and "encapsulated i"
    and "\<not> (methodName i = ''REQMOD'' \<and> connectRequest i)"
    and "\<not> isShadowServiceEnabled i"
    and "backendResult e i = (204, httpMsg, hs)"
  shows "\<exists>i'. RequestProcessing e i = Inr i'
          \<and> written i i' =
              (if Is204Allowed i then [WriteHeader 204 (w_Header (w i')) None False]
               else [WriteHeader 200 (w_Header (w i')) httpMsg True])
          \<and> w_Header (w i') =
              (case hs of None \<Rightarrow> w_Header (w i) | Some l \<Rightarrow> setServiceHeaders (w_Header (w i)) l)"
  using assms
  by (simp add: RequestProcessing_dispatch dispatch_written dispatch_header)

theorem backend_204_witness:
  "\<not> isShadowServiceEnabled ((incoming ''REQMOD'' ''/svc'' Map.empty (Some (httpRequest ''GET'' ''abc'')) None)\<lparr>methodName := ''REQMOD''\<rparr>)
   \<and> encapsulated ((incoming ''REQMOD'' ''/svc'' Map.empty (Some (httpRequest ''GET'' ''abc'')) None)\<lparr>methodName := ''REQMOD''\<rparr>)
   \<and> (\<exists>i'. RequestProcessing (svcEnv False True False noPreview (204, Some (ReqMessage (httpRequest ''GET'' ''abc'')), None))
           ((incoming ''REQMOD'' ''/svc'' Map.empty (Some (httpRequest ''GET'' ''abc'')) None)\<lparr>methodName := ''REQMOD''\<rparr>) = Inr i'
        \<and> written ((incoming ''REQMOD'' ''/svc'' Map.empty (Some (httpRequest ''GET'' ''abc'')) None)\<lparr>methodName := ''REQMOD''\<rparr>) i'
            = [WriteHeader 200 Map.empty (Some (ReqMessage (httpRequest ''GET'' ''abc''))) True])"
proof -
  let ?i = "(incoming ''REQMOD'' ''/svc'' Map.empty (Some (httpRequest ''GET'' ''abc'')) None)\<lparr>methodName := ''REQMOD''\<rparr>"
  let ?e = "svcEnv False True False noPreview (204, Some (ReqMessage (httpRequest ''GET'' ''abc'')), None)"
  have 1: "methodName ?i \<noteq> ''OPTIONS''" by simp
  have 2: "encapsulated ?i" by (simp add: encapsulated_def sample_defs)
  have 3: "\<not> (methodName ?i = ''REQMOD'' \<and> connectRequest ?i)"
    by (simp add: connectRequest_def sample_defs)
  have 4: "\<not> isShadowServiceEnabled ?i" by (simp add: sample_defs)
  have 5: "backendResult ?e ?i = (204, Some (ReqMessage (httpRequest ''GET'' ''abc'')), None)"
    by (simp add: backendResult_def svcEnv_def)
  from backend_204[OF 1 2 3 4 5] obtain i' where
    r: "RequestProcessing ?e ?i = Inr i'"
    and wr: "written ?i i' =
       (if Is204Allowed ?i then [WriteHeader 204 (w_Header (w i')) None False]
        else [WriteHeader 200 (w_Header (w i')) (Some (ReqMessage (httpRequest ''GET'' ''abc''))) True])"
    and h: "w_Header (w i') = (case None of None \<Rightarrow> w_Header (w ?i)
                               | Some l \<Rightarrow> setServiceHeaders (w_Header (w ?i)) l)"
    by blast
  have "\<not> Is204Allowed ?i" and "w_Header (w ?i) = Map.empty"
    by (simp_all add: incoming_def NewICAPRequest_def)
  with wr h have "written ?i i' = [WriteHeader 200 Map.empty (Some (ReqMessage (httpRequest ''GET'' ''abc''))) True]"
    by simp
  with r 2 4 show ?thesis by blast
qed

text \<open>
  C4 as stated fails: without \<open>Allow: 204\<close> and with a backend answering
  \<open>(204, nil, {})\<close>, the 200 carries no message at all, not the original request.
\<close>

theorem backend_204_counterexample:
  "map status (written (incoming ''REQMOD'' ''/svc'' Map.empty (Some (httpRequest ''GET'' ''abc'')) None)
      (final (transaction (svcEnv False True False noPreview (204, None, Some []))
         (incoming ''REQMOD'' ''/svc'' Map.empty (Some (httpRequest ''GET'' ''abc'')) None)))) = [Some 200]
   \<and> map carried (written (incoming ''REQMOD'' ''/svc'' Map.empty (Some (httpRequest ''GET'' ''abc'')) None)
      (final (transaction (svcEnv False True False noPreview (204, None, Some []))
         (incoming ''REQMOD'' ''/svc'' Map.empty (Some (httpRequest ''GET'' ''abc'')) None)))) = [None]
   \<and> Request (req (incoming ''REQMOD'' ''/svc'' Map.empty (Some (httpRequest ''GET'' ''abc'')) None))
        = Some (httpRequest ''GET'' ''abc'')
   \<and> \<not> is204Allowed (incoming ''REQMOD'' ''/svc'' Map.empty (Some (httpRequest ''GET'' ''abc'')) None)"
  by (simp add: sample_defs controller_defs status_defs is204Allowed_def written_def)

subsection \<open>The headers of the backend\<close>

lemma setServiceHeaders_other:
  "k \<notin> CanonicalMIMEHeaderKey ` fst ` set hs \<Longrightarrow> setServiceHeaders hdr hs k = hdr k"
  by (induction hs arbitrary: hdr) (auto simp: Header_Set_def)

lemma setServiceHeaders_named:
  "(k, v) \<in> set hs \<Longrightarrow>
   \<exists>k' v'. (k', v') \<in> set hs \<and> CanonicalMIMEHeaderKey k' = CanonicalMIMEHeaderKey k
      \<and> setServiceHeaders hdr hs (CanonicalMIMEHeaderKey k) = Some [v']"
proof (induction hs arbitrary: hdr k v)
  case Nil
  then show ?case by simp
next
  case (Cons a hs)
  obtain k0 v0 where a: "a = (k0, v0)" by (cases a)
  show ?case
  proof (cases "CanonicalMIMEHeaderKey k \<in> CanonicalMIMEHeaderKey ` fst ` set hs")
    case True
    then obtain k1 v1 where "(k1, v1) \<in> set hs" "CanonicalMIMEHeaderKey k1 = CanonicalMIMEHeaderKey k"
      by force
    from Cons.IH[OF this(1), of "Header_Set hdr k0 v0"] this(2) show ?thesis
      by (fastforce simp: a)
  next
    case False
    with Cons.prems have "k0 = k" "v0 = v" by (force simp: a)+
    with False show ?thesis
      by (auto simp: a setServiceHeaders_other Header_Set_def)
  qed
qed

text \<open>
  C7, as the code has it. Every header the backend returns is set in the header block under
  its canonical name, \<open>ISTag\<close> and \<open>Service\<close> included: afterwards each name of the backend
  holds a value the backend gave for that canonical name, and every entry whose key is not
  the canonical name of a backend header is unchanged.
\<close>

theorem backend_headers_merge:
  assumes "methodName i \<noteq> ''OPTIONS''" and "encapsulated i"
    and "\<not> (methodName i = ''REQMOD'' \<and> connectRequest i)"
    and "backendResult e i = (code, httpMsg, Some hs)"
  shows "\<exists>i'. RequestProcessing e i = Inr i'
          \<and> (\<forall>k. k \<notin> CanonicalMIMEHeaderKey ` fst ` set hs \<longrightarrow> w_Header (w i') k = w_Header (w i) k)
          \<and> (\<forall>(k, v) \<in> set hs. \<exists>k' v'. (k', v') \<in> set hs
                \<and> CanonicalMIMEHeaderKey k' = CanonicalMIMEHeaderKey k
                \<and> w_Header (w i') (CanonicalMIMEHeaderKey k) = Some [v'])"
  using assms
  by (auto simp: RequestProcessing_dispatch dispatch_header setServiceHeaders_other
        dest: setServiceHeaders_named)

lemma canonical_X_Scan: "CanonicalMIMEHeaderKey ''X-Scan'' = ''X-Scan''"
  by code_simp

theorem backend_headers_merge_witness:
  "''Istag'' \<notin> CanonicalMIMEHeaderKey ` fst ` set [(''X-Scan'', ''clean'')]
   \<and> (''X-Scan'', ''clean'') \<in> set [(''X-Scan'', ''clean'')]
   \<and> (\<exists>i'. RequestProcessing (svcEnv False True False noPreview (200, None, Some [(''X-Scan'', ''clean'')]))
           ((incoming ''REQMOD'' ''/svc'' Map.empty (Some (httpRequest ''GET'' ''abc'')) None)\<lparr>methodName := ''REQMOD''\<rparr>) = Inr i'
        \<and> w_Header (w i') ''Istag'' = None
        \<and> w_Header (w i') ''X-Scan'' = Some [''clean''])"
proof -
  let ?i = "(incoming ''REQMOD'' ''/svc'' Map.empty (Some (httpRequest ''GET'' ''abc'')) None)\<lparr>methodName := ''REQMOD''\<rparr>"
  let ?e = "svcEnv False True False noPreview (200, None, Some [(''X-Scan'', ''clean'')])"
  have 1: "methodName ?i \<noteq> ''OPTIONS''" by simp
  have 2: "encapsulated ?i" by (simp add: encapsulated_def sample_defs)
  have 3: "\<not> (methodName ?i = ''REQMOD'' \<and> connectRequest ?i)"
    by (simp add: connectRequest_def sample_defs)
  have 4: "backendResult ?e ?i = (200, None, Some [(''X-Scan'', ''clean'')])"
    by (simp add: backendResult_def svcEnv_def)
  have 5: "''Istag'' \<notin> CanonicalMIMEHeaderKey ` fst ` set [(''X-Scan'', ''clean'')]"
    by (simp add: canonical_X_Scan)
  from backend_headers_merge[OF 1 2 3 4] obtain i' where
    r: "RequestProcessing ?e ?i = Inr i'"
    and frame: "\<forall>k. k \<notin> CanonicalMIMEHeaderKey ` fst ` set [(''X-Scan'', ''clean'')] \<longrightarrow>
                  w_Header (w i') k = w_Header (w ?i) k"
    and named: "\<forall>(k, v) \<in> set [(''X-Scan'', ''clean'')]. \<exists>k' v'. (k', v') \<in> set [(''X-Scan'', ''clean'')]
                  \<and> CanonicalMIMEHeaderKey k' = CanonicalMIMEHeaderKey k
                  \<and> w_Header (w i') (CanonicalMIMEHeaderKey k) = Some [v']"
    by blast
  from frame 5 have "w_Header (w i') ''Istag'' = None" by (simp add: sample_defs)
  moreover from named have "w_Header (w i') ''X-Scan'' = Some [''clean'']"
    by (simp add: canonical_X_Scan)
  ultimately show ?thesis using r 5 by simp
qed

text \<open>
  C7 as stated fails: a backend returning \<open>ISTag\<close> and \<open>Service\<close> replaces the tag and the
  caption of the service in the reply.
\<close>

theorem backend_headers_merge_counterexample:
  "map (\<lambda>c. (carries c ''ISTag'', carries c ''Service''))
      (written (incoming ''REQMOD'' ''/svc'' Map.empty (Some (httpRequest ''GET'' ''abc'')) None)
        (final (transaction (svcEnv False True False noPreview (200, None, Some [(''ISTag'', ''evil''), (''Service'', ''other'')]))
           (incoming ''REQMOD'' ''/svc'' Map.empty (Some (httpRequest ''GET'' ''abc'')) None))))
     = [(Some [''evil''], Some [''other''])]
   \<and> ReadValuesString (svcEnv False True False noPreview (200, None, Some [(''ISTag'', ''evil''), (''Service'', ''other'')])) ''svc.service_tag'' = ''tag-1''
   \<and> ReadValuesString (svcEnv False True False noPreview (200, None, Some [(''ISTag'', ''evil''), (''Service'', ''other'')])) ''svc.service_caption'' = ''caption''"
  by (simp add: sample_defs controller_defs status_defs is204Allowed_def written_def
        Header_Set_def canonical_keys)

subsection \<open>The reply to \<open>OPTIONS\<close>\<close>

lemma Atoi_nonnegative:
  "(0 \<le> fst (Atoi s)) = (case parseDecimal s of None \<Rightarrow> True | Some n \<Rightarrow> 0 \<le> n)"
  by (simp add: Atoi_def split: option.splits)

lemma Atoi_samples: "Atoi ''-1'' = (- 1, False)" "Atoi ''1024'' = (1024, False)"
  by code_simp+

lemma gated_OPTIONS: "Method (req i) = ''OPTIONS'' \<Longrightarrow> gated e i"
  by (simp add: gated_def isMethodAllowed_def getMethodName_def)

text \<open>
  C8, as the code has it. An \<open>OPTIONS\<close> request on an existing service with at least one
  of its two modes enabled is answered by one \<open>WriteHeader(200, nil, false)\<close> whose header
  block has \<open>Methods\<close> (the enabled methods, \<open>RESPMOD, REQMOD\<close> when both are), \<open>Allow: 204\<close>
  and, always, \<open>Transfer-Preview: *\<close>. \<open>Preview\<close> is set to the configured text exactly when
  preview is enabled and \<open>strconv.Atoi\<close> of the text is not negative, which by
  \<open>Atoi_nonnegative\<close> includes a text that is not a number; otherwise it is as it was.
\<close>

theorem options_reply:
  assumes "routed e i" and "Method (req i) = ''OPTIONS''"
    and "ReadValuesBool e (tl (URL_Path (req i)) @ ''.resp_mode'')
         \<or> ReadValuesBool e (tl (URL_Path (req i)) @ ''.req_mode'')"
  shows "\<exists>i' hdr. transaction e i = Inr i' \<and> written i i' = [WriteHeader 200 hdr None False]
     \<and> hdr ''Methods'' =
         Some [if ReadValuesBool e (tl (URL_Path (req i)) @ ''.resp_mode'')
               then (if ReadValuesBool e (tl (URL_Path (req i)) @ ''.req_mode'')
                     then ''RESPMOD, REQMOD'' else ''RESPMOD'')
               else ''REQMOD'']
     \<and> hdr ''Allow'' = Some [''204'']
     \<and> hdr ''Transfer-Preview'' = Some [''*'']
     \<and> hdr ''Preview'' =
         (if PreviewEnabled (App e) \<and> 0 \<le> fst (Atoi (PreviewBytes (App e)))
          then Some [PreviewBytes (App e)] else w_Header (w i) ''Preview'')
     \<and> hdr ''Istag'' = Some [ReadValuesString e (tl (URL_Path (req i)) @ ''.service_tag'')]
     \<and> hdr ''Service'' = Some [ReadValuesString e (tl (URL_Path (req i)) @ ''.service_caption'')]"
proof -
  from assms(1,2) have "transaction e i = optionsMode e (afterGates e i)"
    by (simp add: transaction_cases gated_OPTIONS routed_def RequestProcessing_def ICAPModeOptions_def)
  with assms(3) show ?thesis
    by (auto simp: optionsMode_def getEnabledMethods_def index_def Let_def h_Set_def WriteHeader_w_def
          written_def Header_Set_def canonical_keys Any_def status_defs)
qed

theorem options_reply_witness:
  "routed (svcEnv True False False \<lparr>PreviewEnabled = True, PreviewBytes = ''1024''\<rparr> (200, None, None))
      (incoming ''OPTIONS'' ''/svc'' Map.empty None None)
   \<and> (\<exists>i' hdr. transaction (svcEnv True False False \<lparr>PreviewEnabled = True, PreviewBytes = ''1024''\<rparr> (200, None, None))
          (incoming ''OPTIONS'' ''/svc'' Map.empty None None) = Inr i'
        \<and> written (incoming ''OPTIONS'' ''/svc'' Map.empty None None) i' = [WriteHeader 200 hdr None False]
        \<and> hdr ''Methods'' = Some [''RESPMOD''] \<and> hdr ''Allow'' = Some [''204'']
        \<and> hdr ''Transfer-Preview'' = Some [''*''] \<and> hdr ''Preview'' = Some [''1024'']
        \<and> hdr ''Istag'' = Some [''tag-1''] \<and> hdr ''Service'' = Some [''caption''])"
proof -
  let ?i = "incoming ''OPTIONS'' ''/svc'' Map.empty None None"
  let ?e = "svcEnv True False False \<lparr>PreviewEnabled = True, PreviewBytes = ''1024''\<rparr> (200, None, None)"
  have 1: "routed ?e ?i" by (simp add: routed_def sample_defs isServiceExists_def)
  have 2: "Method (req ?i) = ''OPTIONS''" by (simp add: sample_defs)
  have 3: "ReadValuesBool ?e (tl (URL_Path (req ?i)) @ ''.resp_mode'')
           \<or> ReadValuesBool ?e (tl (URL_Path (req ?i)) @ ''.req_mode'')"
    by (simp add: sample_defs)
  have 4: "ReadValuesBool ?e (tl (URL_Path (req ?i)) @ ''.resp_mode'')"
      "\<not> ReadValuesBool ?e (tl (URL_Path (req ?i)) @ ''.req_mode'')"
      "PreviewEnabled (App ?e)" "PreviewBytes (App ?e) = ''1024''"
      "ReadValuesString ?e (tl (URL_Path (req ?i)) @ ''.service_tag'') = ''tag-1''"
      "ReadValuesString ?e (tl (URL_Path (req ?i)) @ ''.service_caption'') = ''caption''"
    by (simp_all add: sample_defs)
  from options_reply[OF 1 2 3] obtain i' hdr where
    r: "transaction ?e ?i = Inr i'" "written ?i i' = [WriteHeader 200 hdr None False]"
    and m: "hdr ''Methods'' =
         Some [if ReadValuesBool ?e (tl (URL_Path (req ?i)) @ ''.resp_mode'')
               then (if ReadValuesBool ?e (tl (URL_Path (req ?i)) @ ''.req_mode'')
                     then ''RESPMOD, REQMOD'' else ''RESPMOD'')
               else ''REQMOD'']"
    and a: "hdr ''Allow'' = Some [''204'']" "hdr ''Transfer-Preview'' = Some [''*'']"
    and p: "hdr ''Preview'' =
         (if PreviewEnabled (App ?e) \<and> 0 \<le> fst (Atoi (PreviewBytes (App ?e)))
          then Some [PreviewBytes (App ?e)] else w_Header (w ?i) ''Preview'')"
    and t: "hdr ''Istag'' = Some [ReadValuesString ?e (tl (URL_Path (req ?i)) @ ''.service_tag'')]"
           "hdr ''Service'' = Some [ReadValuesString ?e (tl (URL_Path (req ?i)) @ ''.service_caption'')]"
    by blast
  from m 4 have m': "hdr ''Methods'' = Some [''RESPMOD'']" by simp
  from p 4 have p': "hdr ''Preview'' = Some [''1024'']" by (simp add: Atoi_samples)
  from t 4 have t': "hdr ''Istag'' = Some [''tag-1'']" "hdr ''Service'' = Some [''caption'']"
    by simp_all
  from r m' a p' t' 1 show ?thesis by blast
qed

text \<open>
  C8 as stated fails: with a negative \<open>preview_bytes\<close> the reply has \<open>Transfer-Preview\<close>
  without \<open>Preview\<close>, and with preview disabled a non-negative \<open>preview_bytes\<close> gives no
  \<open>Preview\<close> header.
\<close>

theorem options_reply_counterexample:
  "map (\<lambda>c. (status c, carries c ''Preview'', carries c ''Transfer-Preview''))
      (written (incoming ''OPTIONS'' ''/svc'' Map.empty None None)
        (final (transaction (svcEnv True False False \<lparr>PreviewEnabled = True, PreviewBytes = ''-1''\<rparr> (200, None, None))
           (incoming ''OPTIONS'' ''/svc'' Map.empty None None))))
     = [(Some 200, None, Some [''*''])]
   \<and> fst (Atoi ''-1'') = - 1
   \<and> map (\<lambda>c. (status c, carries c ''Preview'', carries c ''Transfer-Preview''))
      (written (incoming ''OPTIONS'' ''/svc'' Map.empty None None)
        (final (transaction (svcEnv True False False \<lparr>PreviewEnabled = False, PreviewBytes = ''1024''\<rparr> (200, None, None))
           (incoming ''OPTIONS'' ''/svc'' Map.empty None None))))
     = [(Some 200, None, Some [''*''])]
   \<and> fst (Atoi ''1024'') = 1024"
  by (simp add: sample_defs controller_defs status_defs is204Allowed_def written_def
        Header_Set_def canonical_keys Atoi_samples Any_def)

subsection \<open>Shadow services\<close>

lemma shadowService_reply:
  assumes "original i = Some m"
  shows "\<exists>i1. shadowService i = Inr i1
           \<and> w_calls (w i1) = w_calls (w i) @ shadowReply_spec (Is204Allowed i) (w_Header (w i)) m"
  using assms
  by (auto simp: original_def shadowService_def shadowReply_spec_def Let_def WriteHeader_w_def Write_w_def
        status_defs split: if_splits option.splits)

lemma dispatch_shadow_calls:
  "isShadowServiceEnabled i \<Longrightarrow> w_calls (w (dispatch e i)) = w_calls (w i)"
  by (simp add: dispatch_def Let_def split: prod.splits option.splits)

lemma original_cong: "req i' = req i \<Longrightarrow> original i' = original i"
  by (simp add: original_def)

lemma backendInput_cong: "req i' = req i \<Longrightarrow> backendInput i' = backendInput i"
  by (simp add: backendInput_def)

lemma backendResult_cong:
  "req i' = req i \<Longrightarrow> vendor i' = vendor i \<Longrightarrow> serviceName i' = serviceName i \<Longrightarrow>
   methodName i' = methodName i \<Longrightarrow> backendResult e i' = backendResult e i"
  by (simp add: backendResult_def backendInput_def)

text \<open>
  C2, as the code has it. A \<open>REQMOD\<close> or \<open>RESPMOD\<close> to a shadow service that passes the gates,
  carries the message of its method and is not a \<open>REQMOD\<close> with \<open>CONNECT\<close>: the calls on the
  writer are exactly those of the specification's shadow reply, in which the backend does
  not occur, with the identity headers of the service; the backend is called exactly once,
  and \<open>RequestInitialization\<close> reports the error \<open>shadow service\<close>. Of the result of the
  backend, the status and the message go nowhere; its headers are set in the header map
  of the writer after the reply, and so are in no call.
\<close>

theorem shadow_reply:
  assumes "routed e i" and "gated e i"
    and "ReadValuesBool e (tl (URL_Path (req i)) @ ''.shadow_service'')"
    and "original i = Some m"
    and "\<not> (Method (req i) = ''REQMOD'' \<and> connectRequest i)"
  shows "\<exists>i'. RequestInitialization e i = Inr (i', Some ''shadow service'')
          \<and> written i i' =
              shadowReply_spec (is204Allowed i)
                (Header_Set (Header_Set (w_Header (w i)) ''ISTag''
                    (ReadValuesString e (tl (URL_Path (req i)) @ ''.service_tag'')))
                  ''Service'' (ReadValuesString e (tl (URL_Path (req i)) @ ''.service_caption''))) m
          \<and> dispatched i' =
              dispatched i @ [(ReadValuesString e (tl (URL_Path (req i)) @ ''.vendor''),
                               tl (URL_Path (req i)), Method (req i), backendInput i)]
          \<and> w_Header (w i') =
              (case backendHeaders e i of
                 None \<Rightarrow> Header_Set (Header_Set (w_Header (w i)) ''ISTag''
                             (ReadValuesString e (tl (URL_Path (req i)) @ ''.service_tag'')))
                           ''Service'' (ReadValuesString e (tl (URL_Path (req i)) @ ''.service_caption''))
               | Some hs \<Rightarrow> setServiceHeaders
                    (Header_Set (Header_Set (w_Header (w i)) ''ISTag''
                             (ReadValuesString e (tl (URL_Path (req i)) @ ''.service_tag'')))
                           ''Service'' (ReadValuesString e (tl (URL_Path (req i)) @ ''.service_caption''))) hs)"
proof -
  let ?i0 = "afterGates e i"
  from assms(4) have meth: "Method (req i) = ''REQMOD'' \<or> Method (req i) = ''RESPMOD''"
    by (auto simp: original_def split: if_splits)
  then have notopt: "Method (req i) \<noteq> ''OPTIONS''" by auto
  from assms(4) have "original ?i0 = Some m" by (simp add: original_cong[of ?i0 i])
  from shadowService_reply[OF this] obtain i1 where
    s: "shadowService ?i0 = Inr i1"
    and c1: "w_calls (w i1) = w_calls (w ?i0) @ shadowReply_spec (Is204Allowed ?i0) (w_Header (w ?i0)) m"
    by blast
  note f = shadowService_fields[OF s]
  from assms(4) have enc: "encapsulated i1"
    by (auto simp: encapsulated_def f original_def split: if_splits)
  from assms(5) have nc: "\<not> (methodName i1 = ''REQMOD'' \<and> connectRequest i1)"
    by (simp add: f connectRequest_def)
  from notopt have "methodName i1 \<noteq> ''OPTIONS''" by (simp add: f)
  from RequestProcessing_dispatch[OF this enc nc] have rp: "RequestProcessing e i1 = Inr (dispatch e i1)" .
  from assms(3) have sh: "isShadowServiceEnabled i1" by (simp add: f)
  obtain code msg hs where r: "backendResult e i1 = (code, msg, hs)"
    by (cases "backendResult e i1")
  have "backendResult e i1 = backendResult e ?i0"
    by (rule backendResult_cong) (simp_all only: f)
  with r have bh: "backendHeaders e i = hs" by (simp add: backendHeaders_def)
  from assms(1,2,3) notopt s rp
  have "RequestInitialization e i = Inr (dispatch e i1, Some ''shadow service'')"
    by (simp add: RequestInitialization_cases routed_def)
  moreover have "written i (dispatch e i1) = shadowReply_spec (is204Allowed i) (w_Header (w ?i0)) m"
    by (simp add: written_def dispatch_shadow_calls[OF sh] c1)
  moreover have "dispatched (dispatch e i1) =
     dispatched i @ [(ReadValuesString e (tl (URL_Path (req i)) @ ''.vendor''),
                      tl (URL_Path (req i)), Method (req i), backendInput i)]"
    by (simp add: dispatch_dispatched f backendInput_cong[of i1 i])
  moreover have "w_Header (w (dispatch e i1)) =
      (case backendHeaders e i of
         None \<Rightarrow> Header_Set (Header_Set (w_Header (w i)) ''ISTag''
                     (ReadValuesString e (tl (URL_Path (req i)) @ ''.service_tag'')))
                   ''Service'' (ReadValuesString e (tl (URL_Path (req i)) @ ''.service_caption''))
       | Some hs \<Rightarrow> setServiceHeaders
            (Header_Set (Header_Set (w_Header (w i)) ''ISTag''
                     (ReadValuesString e (tl (URL_Path (req i)) @ ''.service_tag'')))
                   ''Service'' (ReadValuesString e (tl (URL_Path (req i)) @ ''.service_caption''))) hs)"
    by (cases hs) (simp_all add: dispatch_header[OF r] bh f)
  ultimately show ?thesis by simp
qed

theorem shadow_reply_witness:
  "routed (svcEnv True False True noPreview (200, Some (RespMessage (httpResponse 403 ''blocked'')), Some [(''X-Scan'', ''bad'')]))
      (incoming ''RESPMOD'' ''/svc'' Map.empty None (Some (httpResponse 200 ''body'')))
   \<and> gated (svcEnv True False True noPreview (200, Some (RespMessage (httpResponse 403 ''blocked'')), Some [(''X-Scan'', ''bad'')]))
      (incoming ''RESPMOD'' ''/svc'' Map.empty None (Some (httpResponse 200 ''body'')))
   \<and> original (incoming ''RESPMOD'' ''/svc'' Map.empty None (Some (httpResponse 200 ''body'')))
       = Some (RespMessage (httpResponse 200 ''body''))
   \<and> (\<exists>i'. RequestInitialization (svcEnv True False True noPreview (200, Some (RespMessage (httpResponse 403 ''blocked'')), Some [(''X-Scan'', ''bad'')]))
          (incoming ''RESPMOD'' ''/svc'' Map.empty None (Some (httpResponse 200 ''body''))) = Inr (i', Some ''shadow service'')
        \<and> written (incoming ''RESPMOD'' ''/svc'' Map.empty None (Some (httpResponse 200 ''body''))) i'
           = [WriteHeader 200 (Header_Set (Header_Set Map.empty ''ISTag'' ''tag-1'') ''Service'' ''caption'')
                (Some (RespMessage (httpResponse 200 ''body''))) True,
              Write ''body'']
        \<and> length (dispatched i') = 1)"
proof -
  let ?i = "incoming ''RESPMOD'' ''/svc'' Map.empty None (Some (httpResponse 200 ''body''))"
  let ?e = "svcEnv True False True noPreview (200, Some (RespMessage (httpResponse 403 ''blocked'')), Some [(''X-Scan'', ''bad'')])"
  have 1: "routed ?e ?i" by (simp add: routed_def sample_defs isServiceExists_def)
  have 2: "gated ?e ?i" by (simp add: gated_def sample_defs isMethodAllowed_def getMethodName_def)
  have 3: "ReadValuesBool ?e (tl (URL_Path (req ?i)) @ ''.shadow_service'')" by (simp add: sample_defs)
  have 4: "original ?i = Some (RespMessage (httpResponse 200 ''body''))"
    by (simp add: original_def incoming_def NewICAPRequest_def)
  have 5: "\<not> (Method (req ?i) = ''REQMOD'' \<and> connectRequest ?i)" by (simp add: sample_defs)
  have 6: "\<not> is204Allowed ?i" "w_Header (w ?i) = Map.empty" "dispatched ?i = []"
      "ReadValuesString ?e (tl (URL_Path (req ?i)) @ ''.service_tag'') = ''tag-1''"
      "ReadValuesString ?e (tl (URL_Path (req ?i)) @ ''.service_caption'') = ''caption''"
    by (simp_all add: sample_defs is204Allowed_def)
  from shadow_reply[OF 1 2 3 4 5] obtain i' where
    r: "RequestInitialization ?e ?i = Inr (i', Some ''shadow service'')"
    and wr: "written ?i i' =
              shadowReply_spec (is204Allowed ?i)
                (Header_Set (Header_Set (w_Header (w ?i)) ''ISTag''
                    (ReadValuesString ?e (tl (URL_Path (req ?i)) @ ''.service_tag'')))
                  ''Service'' (ReadValuesString ?e (tl (URL_Path (req ?i)) @ ''.service_caption'')))
                (RespMessage (httpResponse 200 ''body''))"
    and d: "dispatched i' =
              dispatched ?i @ [(ReadValuesString ?e (tl (URL_Path (req ?i)) @ ''.vendor''),
                               tl (URL_Path (req ?i)), Method (req ?i), backendInput ?i)]"
    by blast
  from wr 6 have wr': "written ?i i' =
      [WriteHeader 200 (Header_Set (Header_Set Map.empty ''ISTag'' ''tag-1'') ''Service'' ''caption'')
         (Some (RespMessage (httpResponse 200 ''body''))) True, Write ''body'']"
    by (simp add: shadowReply_spec_def httpResponse_def)
  from d 6 have d': "length (dispatched i') = 1" by simp
  from r wr' d' 1 2 4 show ?thesis by blast
qed

text \<open>
  C2 as stated fails: a \<open>REQMOD\<close> with \<open>CONNECT\<close> to a shadow service passes both gates and
  its backend is never called.
\<close>

theorem shadow_reply_counterexample:
  "dispatched (final (transaction (svcEnv False True True noPreview (200, None, None))
       (incoming ''REQMOD'' ''/svc'' Map.empty (Some (httpRequest ''CONNECT'' [])) None))) = []
   \<and> routed (svcEnv False True True noPreview (200, None, None))
       (incoming ''REQMOD'' ''/svc'' Map.empty (Some (httpRequest ''CONNECT'' [])) None)
   \<and> gated (svcEnv False True True noPreview (200, None, None))
       (incoming ''REQMOD'' ''/svc'' Map.empty (Some (httpRequest ''CONNECT'' [])) None)
   \<and> ReadValuesBool (svcEnv False True True noPreview (200, None, None)) ''svc.shadow_service''"
  by (simp add: sample_defs controller_defs status_defs is204Allowed_def written_def routed_def gated_def)

subsection \<open>The identity headers\<close>

lemma emits_WriteHeader_reply:
  "code = 200 \<or> code = 204 \<or> code = 500 \<Longrightarrow> Q (w_Header (w i)) \<Longrightarrow>
   emits (replyWith Q) i (WriteHeader_w i code msg b)"
  by (simp add: emits_def WriteHeader_w_def replyWith_def)

lemma dispatch_calls: "w_calls (w (dispatch e i)) = w_calls (w i) @ written i (dispatch e i)"
  by (auto simp: dispatch_def written_def Let_def WriteHeader_w_def split: prod.splits option.splits)

lemma h_Set_keeps: "keeps Q S \<Longrightarrow> CanonicalMIMEHeaderKey k \<in> S \<Longrightarrow> Q (w_Header (w i)) \<Longrightarrow>
   Q (w_Header (w (h_Set i k v)))"
  by (simp add: h_Set_def Header_Set_def keeps_def)

lemma h_Set_calls [simp]: "w_calls (w (h_Set i k v)) = w_calls (w i)"
  by (simp add: h_Set_def)

lemma h_Set_appCfg [simp]: "appCfg (h_Set i k v) = appCfg i"
  by (simp add: h_Set_def)

lemma optionsMode_keeps:
  assumes k: "keeps Q S"
    and keys: "''Methods'' \<in> S" "''Allow'' \<in> S" "''Preview'' \<in> S" "''Transfer-Preview'' \<in> S"
    and Q: "Q (w_Header (w i))"
  shows "emits (replyWith Q) i (final (optionsMode e i))"
proof (cases "getEnabledMethods e i")
  case (Inl p)
  then have "final (optionsMode e i) = i"
    by (auto simp: optionsMode_def getEnabledMethods_def index_def Let_def split: if_splits)
  then show ?thesis by (simp add: emits_refl)
next
  case (Inr methods)
  let ?i2 = "h_Set (h_Set i ''Methods'' methods) ''Allow'' ''204''"
  have q2: "Q (w_Header (w ?i2))"
    by (intro h_Set_keeps[OF k]) (simp_all add: canonical_keys keys Q)
  show ?thesis
  proof (cases "appCfg i")
    case None
    with Inr have "final (optionsMode e i) = ?i2" by (simp add: optionsMode_def)
    then show ?thesis by (simp add: emits_same)
  next
    case (Some cfg)
    let ?i3 = "if PreviewEnabled cfg = True
               then (if fst (Atoi (PreviewBytes cfg)) \<ge> 0
                     then h_Set ?i2 ''Preview'' (PreviewBytes cfg) else ?i2)
               else ?i2"
    let ?i4 = "h_Set ?i3 ''Transfer-Preview'' Any"
    have q3: "Q (w_Header (w ?i3))"
      using q2 by (auto intro: h_Set_keeps[OF k] simp: canonical_keys keys)
    have q4: "Q (w_Header (w ?i4))"
      by (intro h_Set_keeps[OF k]) (simp_all only: canonical_keys keys q3)
    have c4: "w_calls (w ?i4) = w_calls (w i)" by simp
    from Inr Some have "final (optionsMode e i) = WriteHeader_w ?i4 StatusOK None False"
      by (simp add: optionsMode_def Let_def)
    moreover have "emits (replyWith Q) ?i4 (WriteHeader_w ?i4 StatusOK None False)"
      by (rule emits_WriteHeader_reply) (simp_all only: status_defs q4, simp)
    ultimately show ?thesis using c4 by (simp only: emits_def)
  qed
qed

lemma shadowService_keeps:
  "Q (w_Header (w i)) \<Longrightarrow> emits (replyWith Q) i (final (shadowService i))"
  by (auto simp: shadowService_def Let_def status_defs WriteHeader_w_def Write_w_def emits_def
        replyWith_def split: option.splits)

lemma RequestProcessing_keeps:
  assumes k: "keeps Q S"
    and keys: "''Methods'' \<in> S" "''Allow'' \<in> S" "''Preview'' \<in> S" "''Transfer-Preview'' \<in> S"
    and Q: "Q (w_Header (w i))"
    and nb: "isShadowServiceEnabled i \<or> methodName i = ''OPTIONS''
             \<or> (methodName i = ''REQMOD'' \<and> connectRequest i)"
  shows "emits (replyWith Q) i (final (RequestProcessing e i))"
proof (cases "methodName i = ''OPTIONS''")
  case True
  then have "RequestProcessing e i = optionsMode e i"
    by (simp add: RequestProcessing_def ICAPModeOptions_def)
  with optionsMode_keeps[OF k keys Q] show ?thesis by simp
next
  case False
  show ?thesis
  proof (cases "methodName i = ''REQMOD'' \<and> connectRequest i")
    case True
    then have "RequestProcessing e i = Inr (WriteHeader_w i NoModificationStatusCodeStr None False)"
      by (auto simp: RequestProcessing_def ICAPModeOptions_def connectRequest_def split: option.splits)
    with Q show ?thesis by (simp add: emits_WriteHeader_reply status_defs)
  next
    case nc: False
    with False nb have sh: "isShadowServiceEnabled i" by blast
    have "emits (replyWith Q) i (dispatch e i)"
      by (rule emits_same) (simp add: dispatch_shadow_calls[OF sh])
    with False nc show ?thesis
      by (auto simp: RequestProcessing_def ICAPModeOptions_def connectRequest_def emits_refl
            split: option.splits)
  qed
qed

lemma transaction_keeps:
  assumes k: "keeps Q S"
    and keys: "''Methods'' \<in> S" "''Allow'' \<in> S" "''Preview'' \<in> S" "''Transfer-Preview'' \<in> S"
    and Q: "Q (w_Header (w (afterGates e i)))"
    and gates: "routed e i" "gated e i"
    and nb: "\<not> repliesFromBackend e i"
  shows "emits (replyWith Q) i (final (transaction e i))"
proof -
  let ?i1 = "afterGates e i"
  from nb have nb1: "isShadowServiceEnabled ?i1 \<or> methodName ?i1 = ''OPTIONS''
             \<or> (methodName ?i1 = ''REQMOD'' \<and> connectRequest ?i1)"
    by (auto simp: repliesFromBackend_def connectRequest_def)
  note rp = RequestProcessing_keeps[OF k keys]
  show ?thesis
  proof (cases "isShadowServiceEnabled ?i1 \<and> Method (req i) \<noteq> ''OPTIONS''")
    case False
    with gates have "transaction e i = RequestProcessing e ?i1"
      by (auto simp: transaction_cases routed_def)
    with rp[OF Q nb1] show ?thesis by (simp add: emits_def)
  next
    case True
    from Q have sh: "emits (replyWith Q) ?i1 (final (shadowService ?i1))"
      by (rule shadowService_keeps)
    show ?thesis
    proof (cases "shadowService ?i1")
      case (Inl p)
      with gates True have "transaction e i = Inl p"
        by (auto simp: transaction_cases routed_def)
      with sh Inl show ?thesis by (cases p) (simp add: emits_def)
    next
      case (Inr i2)
      with gates True have t: "transaction e i = RequestProcessing e i2"
        by (auto simp: transaction_cases routed_def)
      note f = shadowService_fields[OF Inr]
      from Q have q2: "Q (w_Header (w i2))" by (simp only: f(5))
      from True have "isShadowServiceEnabled i2" by (simp add: f)
      then have "isShadowServiceEnabled i2 \<or> methodName i2 = ''OPTIONS''
             \<or> (methodName i2 = ''REQMOD'' \<and> connectRequest i2)" by blast
      from rp[OF q2 this] have "emits (replyWith Q) i2 (final (RequestProcessing e i2))" .
      moreover from sh Inr have "emits (replyWith Q) ?i1 i2" by simp
      ultimately have "emits (replyWith Q) ?i1 (final (RequestProcessing e i2))"
        by (rule emits_trans[rotated])
      with t show ?thesis by (simp add: emits_def)
    qed
  qed
qed

lemma replyWith_status:
  "replyWith Q c \<Longrightarrow> status c = Some code \<Longrightarrow>
   (code = 200 \<or> code = 204 \<or> code = 500) \<and> (\<exists>hdr msg b. c = WriteHeader code hdr msg b \<and> Q hdr)"
  by (cases c) (auto simp: replyWith_def)

lemma RequestProcessing_absent:
  "methodName i \<noteq> ''OPTIONS'' \<Longrightarrow> \<not> encapsulated i \<Longrightarrow> RequestProcessing e i = Inl (NilDereference, i)"
  by (auto simp: RequestProcessing_def ICAPModeOptions_def encapsulated_def
        split: option.splits if_splits)

lemma written_self [simp]: "written i i = []"
  by (simp add: written_def)

text \<open>The reply chosen from the status of the backend, in a transaction that reaches it.\<close>

lemma backend_reply:
  assumes gates: "routed e i" "gated e i" and rb: "repliesFromBackend e i"
    and c: "c \<in> set (written i (final (transaction e i)))" and st: "status c = Some code"
  shows "(code = 200 \<or> code = 204 \<or> code = 500)
     \<and> (\<forall>K. carries c K =
           (case backendHeaders e i of
              None \<Rightarrow> w_Header (w (afterGates e i)) (CanonicalMIMEHeaderKey K)
            | Some hs \<Rightarrow> setServiceHeaders (w_Header (w (afterGates e i))) hs (CanonicalMIMEHeaderKey K)))"
proof -
  let ?i1 = "afterGates e i"
  from rb have m: "methodName ?i1 \<noteq> ''OPTIONS''"
    and nc: "\<not> (methodName ?i1 = ''REQMOD'' \<and> connectRequest ?i1)"
    and ns: "\<not> isShadowServiceEnabled ?i1"
    by (auto simp: repliesFromBackend_def connectRequest_def)
  from gates ns have t: "transaction e i = RequestProcessing e ?i1"
    by (auto simp: transaction_cases routed_def)
  show ?thesis
  proof (cases "encapsulated ?i1")
    case False
    with m t c show ?thesis by (simp add: RequestProcessing_absent written_def)
  next
    case True
    from RequestProcessing_dispatch[OF m True nc] t
    have t': "final (transaction e i) = dispatch e ?i1" by simp
    obtain code' msg hs where r: "backendResult e ?i1 = (code', msg, hs)"
      by (cases "backendResult e ?i1")
    have wr: "written i (dispatch e ?i1) = written ?i1 (dispatch e ?i1)"
      by (simp add: written_def)
    from r have bh: "backendHeaders e i = hs" by (simp add: backendHeaders_def)
    from c st show ?thesis
      unfolding t' wr dispatch_written[OF r] dispatch_header[OF r] bh
      by (auto simp: ns split: if_splits option.splits)
  qed
qed

lemma member_map_fst:
  "List.member (map (\<lambda>p. CanonicalMIMEHeaderKey (fst p)) hs) K = (K \<in> CanonicalMIMEHeaderKey ` fst ` set hs)"
  by force

text \<open>
  C3, as the code has it. Every \<open>WriteHeader\<close> of a transaction, returned or panicked, is
  either the 404 or the 405 reply, written with the header block as it was on entry (the
  controller has set no header yet), or a reply with status 200, 204 or 500 that carries
  an \<open>ISTag\<close> and a \<open>Service\<close> header. Each holds the tag, respectively the caption, of the
  service, unless the reply is the one chosen from the status of the backend and the
  backend returned a header of that canonical name: then it holds a value the backend gave
  under that name. The replies to \<open>OPTIONS\<close>, to \<open>CONNECT\<close> and of a shadow service always
  hold the tag and the caption.
\<close>

theorem identity_headers:
  assumes "c \<in> set (written i (final (transaction e i)))" and "status c = Some code"
  shows "if code = 404 \<or> code = 405
         then c = WriteHeader code (w_Header (w i)) None False
         else (if backendSets e i ''Istag''
               then \<exists>hs k v. backendHeaders e i = Some hs \<and> (k, v) \<in> set hs
                      \<and> CanonicalMIMEHeaderKey k = ''Istag'' \<and> carries c ''ISTag'' = Some [v]
               else carries c ''ISTag'' = Some [ReadValuesString e (tl (URL_Path (req i)) @ ''.service_tag'')])
            \<and> (if backendSets e i ''Service''
               then \<exists>hs k v. backendHeaders e i = Some hs \<and> (k, v) \<in> set hs
                      \<and> CanonicalMIMEHeaderKey k = ''Service'' \<and> carries c ''Service'' = Some [v]
               else carries c ''Service'' = Some [ReadValuesString e (tl (URL_Path (req i)) @ ''.service_caption'')])"
proof (cases "routed e i \<and> gated e i")
  case False
  with assms show ?thesis
    by (auto simp: transaction_cases routed_def written_def WriteHeader_w_def status_defs
          split: if_splits)
next
  case True
  then have gates: "routed e i" "gated e i" by simp_all
  let ?H = "w_Header (w (afterGates e i))"
  let ?tag = "ReadValuesString e (tl (URL_Path (req i)) @ ''.service_tag'')"
  let ?cap = "ReadValuesString e (tl (URL_Path (req i)) @ ''.service_caption'')"
  have H: "?H ''Istag'' = Some [?tag]" "?H ''Service'' = Some [?cap]"
    by (simp_all add: Header_Set_def canonical_keys)
  have main: "(code = 200 \<or> code = 204 \<or> code = 500)
      \<and> (if backendSets e i (CanonicalMIMEHeaderKey K)
          then \<exists>hs k v. backendHeaders e i = Some hs \<and> (k, v) \<in> set hs
                 \<and> CanonicalMIMEHeaderKey k = CanonicalMIMEHeaderKey K \<and> carries c K = Some [v]
          else carries c K = Some V)"
    if HK: "?H (CanonicalMIMEHeaderKey K) = Some V"
      and keys: "CanonicalMIMEHeaderKey K \<notin> {''Methods'', ''Allow'', ''Preview'', ''Transfer-Preview''}"
    for K V
  proof (cases "repliesFromBackend e i")
    case False
    let ?Q = "\<lambda>h :: header. h (CanonicalMIMEHeaderKey K) = Some V"
    have "emits (replyWith ?Q) i (final (transaction e i))"
      using keys HK gates False
      by (intro transaction_keeps[where Q = ?Q and S = "- {CanonicalMIMEHeaderKey K}"])
         (auto simp: keeps_def)
    from replyWith_status[OF emits_written[OF this assms(1)] assms(2)] False show ?thesis
      by (auto simp: backendSets_def)
  next
    case True
    note br = backend_reply[OF gates True assms]
    then have code: "code = 200 \<or> code = 204 \<or> code = 500"
      and car: "carries c K =
           (case backendHeaders e i of
              None \<Rightarrow> ?H (CanonicalMIMEHeaderKey K)
            | Some hs \<Rightarrow> setServiceHeaders ?H hs (CanonicalMIMEHeaderKey K))"
      by blast+
    show ?thesis
    proof (cases "backendSets e i (CanonicalMIMEHeaderKey K)")
      case nbs: False
      have "carries c K = Some V"
      proof (cases "backendHeaders e i")
        case None
        with car HK show ?thesis by simp
      next
        case (Some hs)
        with nbs True have "CanonicalMIMEHeaderKey K \<notin> CanonicalMIMEHeaderKey ` fst ` set hs"
          by (auto simp: backendSets_def)
        from setServiceHeaders_other[OF this, of ?H] car Some HK show ?thesis
          by (simp only: option.case)
      qed
      with nbs code show ?thesis by simp
    next
      case bs: True
      then obtain hs k v where hs: "backendHeaders e i = Some hs" and kv: "(k, v) \<in> set hs"
        and ck: "CanonicalMIMEHeaderKey k = CanonicalMIMEHeaderKey K"
        by (auto simp: backendSets_def member_map_fst split: option.splits)
      from setServiceHeaders_named[OF kv, of ?H] ck obtain k' v' where
        "(k', v') \<in> set hs" "CanonicalMIMEHeaderKey k' = CanonicalMIMEHeaderKey K"
        "setServiceHeaders ?H hs (CanonicalMIMEHeaderKey K) = Some [v']"
        by auto
      with bs hs car code show ?thesis by auto
    qed
  qed
  have a1: "?H (CanonicalMIMEHeaderKey ''ISTag'') = Some [?tag]"
    and a2: "CanonicalMIMEHeaderKey ''ISTag'' \<notin> {''Methods'', ''Allow'', ''Preview'', ''Transfer-Preview''}"
    and b1: "?H (CanonicalMIMEHeaderKey ''Service'') = Some [?cap]"
    and b2: "CanonicalMIMEHeaderKey ''Service'' \<notin> {''Methods'', ''Allow'', ''Preview'', ''Transfer-Preview''}"
    using H by (simp_all add: canonical_keys)
  note m1 = main[OF a1 a2, unfolded canonical_keys]
  note m2 = main[OF b1 b2, unfolded canonical_keys]
  from m1 have "code \<noteq> 404" "code \<noteq> 405" by auto
  with m1 m2 show ?thesis by (auto split: if_splits)
qed

text \<open>
  C3 as stated fails: the 404 for an unknown service and the 405 for a disabled method
  carry neither header.
\<close>

theorem identity_headers_counterexample:
  "map (\<lambda>c. (status c, carries c ''ISTag'', carries c ''Service''))
      (written (incoming ''REQMOD'' ''/nope'' Map.empty (Some (httpRequest ''GET'' ''abc'')) None)
        (final (transaction (svcEnv True True False noPreview (200, None, None))
           (incoming ''REQMOD'' ''/nope'' Map.empty (Some (httpRequest ''GET'' ''abc'')) None))))
     = [(Some 404, None, None)]
   \<and> map (\<lambda>c. (status c, carries c ''ISTag'', carries c ''Service''))
      (written (incoming ''REQMOD'' ''/svc'' Map.empty (Some (httpRequest ''GET'' ''abc'')) None)
        (final (transaction (svcEnv True False False noPreview (200, None, None))
           (incoming ''REQMOD'' ''/svc'' Map.empty (Some (httpRequest ''GET'' ''abc'')) None))))
     = [(Some 405, None, None)]"
  by (simp add: sample_defs controller_defs status_defs written_def canonical_keys)

theorem identity_headers_witness:
  "hd (written (incoming ''OPTIONS'' ''/svc'' Map.empty None None)
        (final (transaction (svcEnv True False False noPreview (200, None, Some [(''ISTag'', ''other'')]))
           (incoming ''OPTIONS'' ''/svc'' Map.empty None None))))
     \<in> set (written (incoming ''OPTIONS'' ''/svc'' Map.empty None None)
        (final (transaction (svcEnv True False False noPreview (200, None, Some [(''ISTag'', ''other'')]))
           (incoming ''OPTIONS'' ''/svc'' Map.empty None None))))
   \<and> status (hd (written (incoming ''OPTIONS'' ''/svc'' Map.empty None None)
        (final (transaction (svcEnv True False False noPreview (200, None, Some [(''ISTag'', ''other'')]))
           (incoming ''OPTIONS'' ''/svc'' Map.empty None None))))) = Some 200
   \<and> carries (hd (written (incoming ''OPTIONS'' ''/svc'' Map.empty None None)
        (final (transaction (svcEnv True False False noPreview (200, None, Some [(''ISTag'', ''other'')]))
           (incoming ''OPTIONS'' ''/svc'' Map.empty None None))))) ''ISTag'' = Some [''tag-1'']
   \<and> carries (hd (written (incoming ''OPTIONS'' ''/svc'' Map.empty None None)
        (final (transaction (svcEnv True False False noPreview (200, None, Some [(''ISTag'', ''other'')]))
           (incoming ''OPTIONS'' ''/svc'' Map.empty None None))))) ''Service'' = Some [''caption'']"
proof -
  let ?i = "incoming ''OPTIONS'' ''/svc'' Map.empty None None"
  let ?e = "svcEnv True False False noPreview (200, None, Some [(''ISTag'', ''other'')])"
  let ?c = "hd (written ?i (final (transaction ?e ?i)))"
  have st: "map status (written ?i (final (transaction ?e ?i))) = [Some 200]"
    by (simp add: sample_defs controller_defs status_defs is204Allowed_def written_def)
  then obtain c0 where w: "written ?i (final (transaction ?e ?i)) = [c0]" and s0: "status c0 = Some 200"
    by auto
  then have 1: "?c \<in> set (written ?i (final (transaction ?e ?i)))" and 2: "status ?c = Some 200"
    by simp_all
  have 3: "\<not> backendSets ?e ?i ''Istag''" "\<not> backendSets ?e ?i ''Service''"
    by (simp_all add: backendSets_def repliesFromBackend_def incoming_def NewICAPRequest_def)
  have 4: "ReadValuesString ?e (tl (URL_Path (req ?i)) @ ''.service_tag'') = ''tag-1''"
      "ReadValuesString ?e (tl (URL_Path (req ?i)) @ ''.service_caption'') = ''caption''"
    by (simp_all add: sample_defs)
  from identity_headers[OF 1 2] 3 have
    "carries ?c ''ISTag'' = Some [ReadValuesString ?e (tl (URL_Path (req ?i)) @ ''.service_tag'')]"
    "carries ?c ''Service'' = Some [ReadValuesString ?e (tl (URL_Path (req ?i)) @ ''.service_caption'')]"
    by simp_all
  with 4 have "carries ?c ''ISTag'' = Some [''tag-1'']" "carries ?c ''Service'' = Some [''caption'']"
    by simp_all
  with 1 2 show ?thesis by blast
qed

end
